theory Spec2Isabelle
  imports Main "HOL-Library.Word"
begin

unbundle bit_operations_syntax

section \<open>The state transition of go-kok (core/state_transition.go)\<close>

text \<open>
  A shallow embedding of the transaction state transition: the account classifier
  (\<open>HashTypeString\<close>, \<open>GetAddressType\<close>), the gas accountant (\<open>IntrinsicGas\<close>,
  \<open>buyGas\<close>, \<open>useGas\<close>, \<open>refundGas\<close>), the role/kind dispatch and the reward split of
  \<open>TransitionDb\<close>. Go's mutation of the receiver \<open>st\<close> is explicit state passing: every
  method takes the \<open>StateTransition\<close> and returns the updated one next to its result.
  The Go text of package \<open>core\<close> is the second document of
  \<open>src/containers/vagrant/provisioners/shell/ubuntu.sh\<close>.

  Three names differ from the source, where Isabelle has the word already: the method
  \<open>from\<close> is \<open>from'\<close>, the field \<open>value\<close> is \<open>value'\<close>, and the backend's entry points
  \<open>SourceCode\<close> and \<open>Endorse\<close> are \<open>SourceCodeCall\<close> and \<open>EndorseCall\<close>, since the
  transaction kinds bear those names.
\<close>

subsection \<open>Bytes, hashes, addresses and big integers\<close>

type_synonym byte = "8 word"
type_synonym uint64 = "64 word"

text \<open>\<open>common.Hash\<close> is \<open>[32]byte\<close> and \<open>common.Address\<close> is \<open>[20]byte\<close>: byte lists,
  of length 32 and 20 for a well-formed value.\<close>

type_synonym hash = "byte list"
type_synonym address = "byte list"

text \<open>A Go slice \<open>[]byte\<close> is either \<open>nil\<close> (\<open>None\<close>) or a slice, which may have length 0
  (\<open>Some []\<close>). \<open>len\<close> is 0 for both, but \<open>data != nil\<close> tells them apart.\<close>

type_synonym bytes = "byte list option"

definition len :: "bytes \<Rightarrow> nat" where
  "len b = (case b of None \<Rightarrow> 0 | Some xs \<Rightarrow> length xs)"

definition elems :: "bytes \<Rightarrow> byte list" where
  "elems b = (case b of None \<Rightarrow> [] | Some xs \<Rightarrow> xs)"

text \<open>\<open>[]byte(s)\<close> of a Go string literal: its bytes.\<close>

definition go_bytes :: "string \<Rightarrow> byte list" where
  "go_bytes s = map of_char s"

text \<open>\<open>*big.Int\<close> is \<open>int\<close>. \<open>BitLen\<close> is the length of the absolute value in bits;
  \<open>Uint64\<close> returns the low 64 bits of the absolute value (what math/big does, also
  where the documentation calls the result undefined); \<open>SetUint64\<close> is \<open>uint\<close>.\<close>

fun bitlen_nat :: "nat \<Rightarrow> nat" where
  "bitlen_nat n = (if n = 0 then 0 else Suc (bitlen_nat (n div 2)))"

declare bitlen_nat.simps [simp del]

definition BitLen :: "int \<Rightarrow> nat" where
  "BitLen x = bitlen_nat (nat \<bar>x\<bar>)"

definition Uint64 :: "int \<Rightarrow> uint64" where
  "Uint64 x = word_of_int \<bar>x\<bar>"

subsection \<open>Errors and transaction kinds\<close>

text \<open>The error values the transition returns or compares with. \<open>ErrExecution\<close> stands
  for any other error of the execution backend, \<open>Panic\<close> for a Go run-time panic.\<close>

datatype error =
    ErrNonceTooHigh
  | ErrNonceTooLow
  | errInsufficientBalanceForGas
  | ErrGasLimitReached
  | ErrOutOfGas
  | ErrInsufficientBalance
  | ErrInvalidType
  | ErrInvalidInput
  | ErrExecution string
  | Panic

text \<open>Modelled from the spec: \<open>types.TxType\<close> is declared outside the sources at hand; the
  spec gives it as a closed enumeration of seven kinds.\<close>

datatype TxType =
    Binary
  | SourceCode
  | Endorse
  | LoginCandidate
  | LogoutCandidate
  | Delegate
  | UnDelegate

subsection \<open>The message\<close>

record Message =
  From :: address
  To :: "address option"
  GasPrice :: int
  Gas :: int
  Value :: int
  Nonce :: uint64
  CheckNonce :: bool
  Data :: bytes

subsection \<open>World state and gas pool\<close>

text \<open>Modelled from the spec: \<open>vm.StateDB\<close> is an interface declared outside the sources at
  hand. The spec gives it as account existence, balance, nonce, code and per-address
  storage slots with get/set semantics, and a refund counter. An address without an
  account reads as the empty account; an unset storage slot reads as the zero hash.\<close>

record Account =
  acc_balance :: int
  acc_nonce :: uint64
  acc_code :: "byte list"
  acc_storage :: "hash \<rightharpoonup> hash"

record StateDB =
  accounts :: "address \<rightharpoonup> Account"
  refund :: int

definition empty_account :: Account where
  "empty_account = \<lparr>acc_balance = 0, acc_nonce = 0, acc_code = [], acc_storage = Map.empty\<rparr>"

definition getAccount :: "StateDB \<Rightarrow> address \<Rightarrow> Account" where
  "getAccount s a = (case accounts s a of None \<Rightarrow> empty_account | Some ac \<Rightarrow> ac)"

definition Exist :: "StateDB \<Rightarrow> address \<Rightarrow> bool" where
  "Exist s a = (accounts s a \<noteq> None)"

definition CreateAccount :: "StateDB \<Rightarrow> address \<Rightarrow> StateDB" where
  "CreateAccount s a =
     s\<lparr>accounts := (accounts s)(a \<mapsto> empty_account\<lparr>acc_balance := acc_balance (getAccount s a)\<rparr>)\<rparr>"

definition GetBalance :: "StateDB \<Rightarrow> address \<Rightarrow> int" where
  "GetBalance s a = acc_balance (getAccount s a)"

definition AddBalance :: "StateDB \<Rightarrow> address \<Rightarrow> int \<Rightarrow> StateDB" where
  "AddBalance s a v =
     s\<lparr>accounts := (accounts s)(a \<mapsto> (getAccount s a)\<lparr>acc_balance := acc_balance (getAccount s a) + v\<rparr>)\<rparr>"

definition SubBalance :: "StateDB \<Rightarrow> address \<Rightarrow> int \<Rightarrow> StateDB" where
  "SubBalance s a v =
     s\<lparr>accounts := (accounts s)(a \<mapsto> (getAccount s a)\<lparr>acc_balance := acc_balance (getAccount s a) - v\<rparr>)\<rparr>"

definition GetNonce :: "StateDB \<Rightarrow> address \<Rightarrow> uint64" where
  "GetNonce s a = acc_nonce (getAccount s a)"

definition SetNonce :: "StateDB \<Rightarrow> address \<Rightarrow> uint64 \<Rightarrow> StateDB" where
  "SetNonce s a n = s\<lparr>accounts := (accounts s)(a \<mapsto> (getAccount s a)\<lparr>acc_nonce := n\<rparr>)\<rparr>"

definition GetCode :: "StateDB \<Rightarrow> address \<Rightarrow> byte list" where
  "GetCode s a = acc_code (getAccount s a)"

definition GetState :: "StateDB \<Rightarrow> address \<Rightarrow> hash \<Rightarrow> hash" where
  "GetState s a k = (case acc_storage (getAccount s a) k of None \<Rightarrow> replicate 32 0 | Some v \<Rightarrow> v)"

definition GetRefund :: "StateDB \<Rightarrow> int" where
  "GetRefund s = refund s"

text \<open>Modelled from the spec: \<open>GasPool\<close> is declared outside the sources at hand. The spec
  gives \<open>subGas(amount) -> error\<close>, which fails when the pool is exhausted and then leaves
  the pool as it was, and \<open>addGas(amount)\<close>.\<close>

type_synonym GasPool = int

definition SubGas :: "GasPool \<Rightarrow> int \<Rightarrow> error option \<times> GasPool" where
  "SubGas gp amount = (if gp < amount then (Some ErrGasLimitReached, gp) else (None, gp - amount))"

definition AddGas :: "GasPool \<Rightarrow> int \<Rightarrow> GasPool" where
  "AddGas gp amount = gp + amount"

subsection \<open>Protocol parameters and the execution backend\<close>

text \<open>The constants of package \<open>params\<close> that \<open>IntrinsicGas\<close> reads are parameters of the
  model.\<close>

record params =
  TxGas :: uint64
  TxGasContractCreation :: uint64
  TxDataNonZeroGas :: uint64
  TxDataZeroGas :: uint64

text \<open>The execution backend \<open>*vm.EVM\<close> is a parameter of the model: its block beneficiary
  \<open>Coinbase\<close>, the outcome of \<open>ChainConfig().IsHomestead(BlockNumber)\<close>, and its five entry
  points. An entry point reads and writes the world state, so it takes the state and
  returns (output, gas left, error, new state); the contract address that \<open>Template\<close> and
  \<open>Create\<close> also return is dropped, as the caller drops it. The validator argument of
  \<open>Call\<close> is \<open>None\<close> for Go's \<open>nil\<close>.\<close>

type_synonym vm_result = "byte list \<times> uint64 \<times> error option \<times> StateDB"

record EVM =
  Coinbase :: address
  IsHomestead :: bool
  Template :: "StateDB \<Rightarrow> address \<Rightarrow> bytes \<Rightarrow> uint64 \<Rightarrow> int \<Rightarrow> vm_result"
  Create :: "StateDB \<Rightarrow> address \<Rightarrow> byte list \<Rightarrow> uint64 \<Rightarrow> int \<Rightarrow> vm_result"
  SourceCodeCall :: "StateDB \<Rightarrow> address \<Rightarrow> address \<Rightarrow> bytes \<Rightarrow> uint64 \<Rightarrow> int \<Rightarrow> byte list \<Rightarrow> vm_result"
  EndorseCall :: "StateDB \<Rightarrow> address \<Rightarrow> address \<Rightarrow> bytes \<Rightarrow> uint64 \<Rightarrow> int \<Rightarrow> byte list \<Rightarrow> vm_result"
  Call :: "StateDB \<Rightarrow> address \<Rightarrow> address \<Rightarrow> bytes \<Rightarrow> uint64 \<Rightarrow> int \<Rightarrow> address list option \<Rightarrow> vm_result"

subsection \<open>The state transition object\<close>

record StateTransition =
  gp :: GasPool
  msg :: Message
  gas :: uint64
  gasPrice :: int
  initialGas :: int
  value' :: int
  data :: bytes
  state :: StateDB
  evm :: EVM
  ValidatorS :: "address list option"
  txType :: TxType
  txHash :: "byte list"

text \<open>\<open>NewStateTransition\<close>: the world state is \<open>evm.StateDB\<close> in the source and an argument
  of its own here.\<close>

definition NewStateTransition ::
  "EVM \<Rightarrow> StateDB \<Rightarrow> Message \<Rightarrow> GasPool \<Rightarrow> address list option \<Rightarrow> byte list \<Rightarrow> TxType \<Rightarrow> StateTransition" where
  "NewStateTransition e s m g Validators tx txtype =
     \<lparr>gp = g, msg = m, gas = 0, gasPrice = GasPrice m, initialGas = 0, value' = Value m,
      data = Data m, state = s, evm = e, ValidatorS = Validators, txType = txtype, txHash = tx\<rparr>"

subsection \<open>Account classifier\<close>

text \<open>\<open>HashTypeString\<close> copies the bytes of \<open>s\<close> to the front of a zero hash. Writing
  \<open>hash[i]\<close> for \<open>i \<ge> 32\<close> panics in Go: \<open>None\<close>.\<close>

definition HashTypeString :: "string \<Rightarrow> hash option" where
  "HashTypeString s =
     (if length s \<le> 32
      then Some (fold (\<lambda>i hash. hash[i := go_bytes s ! i]) [0..<length s] (replicate 32 0))
      else None)"

text \<open>\<open>string(code)\<close> of a byte is the UTF-8 encoding of the code point \<open>code\<close>: the byte
  itself below 0x80, two bytes from 0x80 on.\<close>

definition string_of_byte :: "byte \<Rightarrow> byte list" where
  "string_of_byte b =
     (if b < 0x80 then [b] else [0xC0 OR drop_bit 6 b, 0x80 OR (b AND 0x3F)])"

definition GetAddressType :: "hash \<Rightarrow> string" where
  "GetAddressType hash =
     (let st = fold (\<lambda>i st. st @ string_of_byte (hash ! i)) [0..<8] []
      in if st = go_bytes ''template'' then ''template''
         else if st = go_bytes ''contract'' then ''contract''
         else ''normal'')"

subsection \<open>Byte helpers\<close>

definition byteAppend :: "byte list \<Rightarrow> hash \<Rightarrow> byte list" where
  "byteAppend template coinbase = fold (\<lambda>i template. template @ [coinbase ! i]) [0..<20] template"

definition byteAppendAddress :: "byte list \<Rightarrow> address \<Rightarrow> byte list" where
  "byteAppendAddress template address = fold (\<lambda>i template. template @ [address ! i]) [0..<20] template"

definition ByteAndByte :: "byte list \<Rightarrow> bytes \<Rightarrow> byte list" where
  "ByteAndByte template d = fold (\<lambda>i template. template @ [elems d ! i]) [0..<len d] template"

definition CommonHash2Address :: "hash \<Rightarrow> address" where
  "CommonHash2Address hash = fold (\<lambda>i address. address[i := hash ! i]) [0..<20] (replicate 20 0)"

definition Layer :: "uint64 \<Rightarrow> uint64 \<Rightarrow> uint64 \<times> uint64" where
  "Layer g tail =
     (let gas_coinbase = g div 10 * tail;
          gas_mine = g - gas_coinbase
      in (gas_mine, gas_coinbase))"

subsection \<open>Gas accountant\<close>

text \<open>The counter \<open>nz\<close> is an \<open>int64\<close> in the source; no slice is long enough to overflow
  it, so it is an \<open>int\<close> here.\<close>

definition IntrinsicGas :: "params \<Rightarrow> bytes \<Rightarrow> bool \<Rightarrow> bool \<Rightarrow> int" where
  "IntrinsicGas P d contractCreation homestead =
     (let igas = (if contractCreation \<and> homestead then uint (TxGasContractCreation P)
                  else uint (TxGas P))
      in if len d > 0
         then (let nz = fold (\<lambda>byt nz. if byt \<noteq> 0 then nz + 1 else nz) (elems d) (0::int);
                   igas = igas + nz * uint (TxDataNonZeroGas P);
                   igas = igas + (int (len d) - nz) * uint (TxDataZeroGas P)
               in igas)
         else igas)"

definition from' :: "StateTransition \<Rightarrow> address \<times> StateTransition" where
  "from' st =
     (let f = From (msg st)
      in if \<not> Exist (state st) f then (f, st\<lparr>state := CreateAccount (state st) f\<rparr>)
         else (f, st))"

definition useGas :: "StateTransition \<Rightarrow> uint64 \<Rightarrow> error option \<times> StateTransition" where
  "useGas st amount =
     (if gas st < amount then (Some ErrOutOfGas, st)
      else (None, st\<lparr>gas := gas st - amount\<rparr>))"

definition buyGas :: "StateTransition \<Rightarrow> error option \<times> StateTransition" where
  "buyGas st0 =
     (let mgas = Gas (msg st0)
      in if BitLen mgas > 64 then (Some ErrOutOfGas, st0)
         else (let mgval = mgas * gasPrice st0;
                   (sender, st) = from' st0
               in if GetBalance (state st) sender < mgval
                  then (Some errInsufficientBalanceForGas, st)
                  else (case SubGas (gp st) mgas of
                          (Some err, g) \<Rightarrow> (Some err, st\<lparr>gp := g\<rparr>)
                        | (None, g) \<Rightarrow>
                            (None, st\<lparr>gp := g,
                                      gas := gas st + Uint64 mgas,
                                      initialGas := mgas,
                                      state := SubBalance (state st) sender mgval\<rparr>))))"

definition preCheck :: "StateTransition \<Rightarrow> error option \<times> StateTransition" where
  "preCheck st0 =
     (let (sender, st) = from' st0
      in if CheckNonce (msg st)
         then (let nonce = GetNonce (state st) sender
               in if nonce < Nonce (msg st) then (Some ErrNonceTooHigh, st)
                  else if nonce > Nonce (msg st) then (Some ErrNonceTooLow, st)
                  else buyGas st)
         else buyGas st)"

definition gasUsed :: "StateTransition \<Rightarrow> int" where
  "gasUsed st = initialGas st - uint (gas st)"

text \<open>\<open>refundGas\<close>: \<open>big.Int.Div\<close> is Euclidean division, which for the divisor 2 is
  \<open>div\<close>; \<open>math.BigMin\<close> is \<open>min\<close>. The refund counter of the state is read only.\<close>

definition refundGas :: "StateTransition \<Rightarrow> StateTransition" where
  "refundGas st0 =
     (let (sender, st) = from' st0;
          remaining = uint (gas st) * gasPrice st;
          st = st\<lparr>state := AddBalance (state st) sender remaining\<rparr>;
          uhalf = gasUsed st div 2;
          refund = min uhalf (GetRefund (state st));
          st = st\<lparr>gas := gas st + Uint64 refund\<rparr>;
          st = st\<lparr>state := AddBalance (state st) sender (refund * gasPrice st)\<rparr>
      in st\<lparr>gp := AddGas (gp st) (uint (gas st))\<rparr>)"

subsection \<open>TransitionDb\<close>

text \<open>\<open>TransitionDb\<close> is one Go function; it is cut here into the stretches it runs in
  sequence, and defined as their composition.

  \<open>prepare\<close> is the stretch before the dispatch: \<open>preCheck\<close>, the classification of the
  recipient and the payment of the intrinsic gas. It yields the sender and the
  \<open>addressType\<close>, which stays the empty string when the message has no recipient.\<close>

definition prepare :: "params \<Rightarrow> StateTransition \<Rightarrow> (error + address \<times> string) \<times> StateTransition" where
  "prepare P st0 =
     (case preCheck st0 of
        (Some err, st) \<Rightarrow> (Inl err, st)
      | (None, st1) \<Rightarrow>
          (let (sender, st) = from' st1;
               homestead = IsHomestead (evm st)
           in case HashTypeString ''type'' of
                None \<Rightarrow> (Inl Panic, st)
              | Some typeKey \<Rightarrow>
                  (let addressType =
                         (case To (msg st) of
                            None \<Rightarrow> []
                          | Some to \<Rightarrow> GetAddressType (GetState (state st) to typeKey));
                       contractCreation =
                         (case To (msg st) of
                            None \<Rightarrow> True
                          | Some to \<Rightarrow> addressType = ''template'');
                       intrinsicGas = IntrinsicGas P (data st) contractCreation homestead
                   in if BitLen intrinsicGas > 64 then (Inl ErrOutOfGas, st)
                      else (case useGas st (Uint64 intrinsicGas) of
                              (Some err, st) \<Rightarrow> (Inl err, st)
                            | (None, st) \<Rightarrow> (Inr (sender, addressType), st)))))"

text \<open>Two abbreviations for what every branch of the dispatch repeats:
  \<open>st.state.SetNonce(msg.From(), st.state.GetNonce(sender.Address())+1)\<close>, and the
  assignment \<open>ret, st.gas, vmerr = evm. ...\<close> of a backend result.\<close>

definition incrementNonce :: "address \<Rightarrow> StateTransition \<Rightarrow> StateTransition" where
  "incrementNonce sender st =
     st\<lparr>state := SetNonce (state st) (From (msg st)) (GetNonce (state st) sender + 1)\<rparr>"

definition assignResult ::
  "vm_result \<Rightarrow> StateTransition \<Rightarrow> (error + byte list \<times> error option) \<times> StateTransition" where
  "assignResult r st =
     (case r of (ret, g, vmerr, s) \<Rightarrow> (Inr (ret, vmerr), st\<lparr>gas := g, state := s\<rparr>))"

text \<open>The dispatch on recipient, \<open>addressType\<close> and \<open>txType\<close>. It yields the output and
  \<open>vmerr\<close>, or the error of an early return. A switch with no matching case runs nothing
  and leaves \<open>ret\<close> and \<open>vmerr\<close> nil. \<open>common.BytesToHash(st.txHash)\<close> is left to the
  backend, which gets \<open>txHash\<close> as it is.\<close>

definition dispatch ::
  "address \<Rightarrow> string \<Rightarrow> StateTransition \<Rightarrow> (error + byte list \<times> error option) \<times> StateTransition" where
  "dispatch sender addressType st =
     (case To (msg st) of
        None \<Rightarrow> assignResult (Template (evm st) (state st) sender (data st) (gas st) (value' st)) st
      | Some to \<Rightarrow>
          if addressType = ''template'' then
            (if txType st = Binary then
               (let templateCode = GetCode (state st) to;
                    templateCode = (if len (data st) > 0 then ByteAndByte templateCode (data st)
                                    else templateCode)
                in case HashTypeString ''coinbase'' of
                     None \<Rightarrow> (Inl Panic, st)
                   | Some coinbaseKey \<Rightarrow>
                       (let coinbase = GetState (state st) to coinbaseKey;
                            templateCode = byteAppend templateCode coinbase;
                            templateCode = byteAppendAddress templateCode to
                        in assignResult (Create (evm st) (state st) sender templateCode (gas st) (value' st)) st))
             else if txType st = SourceCode then
               (let st = incrementNonce sender st
                in assignResult (SourceCodeCall (evm st) (state st) sender to (data st) (gas st) (value' st) (txHash st)) st)
             else if txType st = Endorse then
               (let st = incrementNonce sender st
                in assignResult (EndorseCall (evm st) (state st) sender to (data st) (gas st) (value' st) (txHash st)) st)
             else (Inl ErrInvalidType, st))
          else if addressType = ''contract'' then
            (if txType st = Endorse then
               (let st = incrementNonce sender st
                in assignResult (EndorseCall (evm st) (state st) sender to (data st) (gas st) (value' st) (txHash st)) st)
             else if txType st = Binary then
               (let st = incrementNonce sender st
                in assignResult (Call (evm st) (state st) sender to (data st) (gas st) (value' st) None) st)
             else (Inl ErrInvalidType, st))
          else if addressType = ''normal'' then
            (if txType st = Endorse then
               (let st = incrementNonce sender st
                in assignResult (EndorseCall (evm st) (state st) sender to (data st) (gas st) (value' st) (txHash st)) st)
             else if txType st = Binary then
               (let st = incrementNonce sender st
                in assignResult (Call (evm st) (state st) sender to (data st) (gas st) (value' st) (ValidatorS st)) st)
             else if txType st = LoginCandidate \<or> txType st = LogoutCandidate
                     \<or> txType st = Delegate \<or> txType st = UnDelegate then
               (if data st \<noteq> None then (Inl ErrInvalidInput, st)
                else (let st = incrementNonce sender st
                      in assignResult (Call (evm st) (state st) sender to (data st) (gas st) (value' st) (ValidatorS st)) st))
             else (Inl ErrInvalidType, st))
          else (Inr ([], None), st))"

text \<open>The reward: the fee of the gas used goes to the block's \<open>Coinbase\<close>, but for the
  \<open>addressType\<close> "contract" \<open>Layer\<close> splits it with the address read from the recipient's
  "coinbase" slot. Dereferencing a nil \<open>st.msg.To()\<close> would panic.\<close>

definition reward :: "string \<Rightarrow> StateTransition \<Rightarrow> error option \<times> StateTransition" where
  "reward addressType st0 =
     (if addressType = ''contract'' then
        (let (gas_mine, gas_coinbase) = Layer (Uint64 (gasUsed st0)) 1;
             st = st0\<lparr>state := AddBalance (state st0) (Coinbase (evm st0)) (uint gas_mine * gasPrice st0)\<rparr>
         in case (To (msg st), HashTypeString ''coinbase'') of
              (Some to, Some coinbaseKey) \<Rightarrow>
                (let address_coinbase = CommonHash2Address (GetState (state st) to coinbaseKey)
                 in (None, st\<lparr>state := AddBalance (state st) address_coinbase
                                          (uint gas_coinbase * gasPrice st)\<rparr>))
            | _ \<Rightarrow> (Some Panic, st))
      else (None, st0\<lparr>state := AddBalance (state st0) (Coinbase (evm st0))
                                 (uint (Uint64 (gasUsed st0)) * gasPrice st0)\<rparr>))"

text \<open>The stretch after the dispatch: the one execution error that is returned, the
  required gas, the refund and the reward. The result is
  (\<open>ret\<close>, \<open>requiredGas\<close>, \<open>usedGas\<close>, \<open>failed\<close>).\<close>

definition finish ::
  "string \<Rightarrow> byte list \<Rightarrow> error option \<Rightarrow> StateTransition
     \<Rightarrow> (error + byte list \<times> int \<times> int \<times> bool) \<times> StateTransition" where
  "finish addressType ret vmerr st0 =
     (if vmerr = Some ErrInsufficientBalance then (Inl ErrInsufficientBalance, st0)
      else (let requiredGas = gasUsed st0;
                st = refundGas st0
            in case reward addressType st of
                 (Some err, st) \<Rightarrow> (Inl err, st)
               | (None, st) \<Rightarrow> (Inr (ret, requiredGas, gasUsed st, vmerr \<noteq> None), st)))"

definition TransitionDb ::
  "params \<Rightarrow> StateTransition \<Rightarrow> (error + byte list \<times> int \<times> int \<times> bool) \<times> StateTransition" where
  "TransitionDb P st0 =
     (case prepare P st0 of
        (Inl err, st) \<Rightarrow> (Inl err, st)
      | (Inr (sender, addressType), st) \<Rightarrow>
          (case dispatch sender addressType st of
             (Inl err, st) \<Rightarrow> (Inl err, st)
           | (Inr (ret, vmerr), st) \<Rightarrow> finish addressType ret vmerr st))"

subsection \<open>A sample chain for concrete runs\<close>

text \<open>Sample parameters (the gas constants of the Ethereum main net, and a small variant),
  sample addresses, and a small backend: \<open>Call\<close> refuses a value the sender cannot pay
  with \<open>ErrInsufficientBalance\<close>, and otherwise moves the value, burns up to 5000 gas and
  records a refund of 15000; the other entry points burn no gas and return what they were
  given as output.\<close>

definition sample_params :: params where
  "sample_params = \<lparr>TxGas = 21000, TxGasContractCreation = 53000,
                     TxDataNonZeroGas = 68, TxDataZeroGas = 4\<rparr>"

definition small_params :: params where
  "small_params = \<lparr>TxGas = 100, TxGasContractCreation = 200,
                    TxDataNonZeroGas = 2, TxDataZeroGas = 1\<rparr>"

definition alice :: address where "alice = replicate 20 0xA1"
definition bob :: address where "bob = replicate 20 0xB0"
definition carol :: address where "carol = replicate 20 0xC0"
definition miner :: address where "miner = replicate 20 0xCB"
definition tmpl :: address where "tmpl = replicate 20 0x7E"
definition ctr :: address where "ctr = replicate 20 0xC7"

definition sample_call ::
  "StateDB \<Rightarrow> address \<Rightarrow> address \<Rightarrow> bytes \<Rightarrow> uint64 \<Rightarrow> int \<Rightarrow> address list option \<Rightarrow> vm_result" where
  "sample_call s sender to d g v vals =
     (if GetBalance s sender < v then ([], g, Some ErrInsufficientBalance, s)
      else ([], g - min g 5000, None, (AddBalance (SubBalance s sender v) to v)\<lparr>refund := 15000\<rparr>))"

definition sample_evm :: EVM where
  "sample_evm =
     \<lparr>Coinbase = miner, IsHomestead = True,
      Template = (\<lambda>s sender d g v. (elems d, g, None, s)),
      Create = (\<lambda>s sender c g v. (c, g, None, s)),
      SourceCodeCall = (\<lambda>s sender to d g v h. (elems d, g, None, s)),
      EndorseCall = (\<lambda>s sender to d g v h. (elems d, g, None, s)),
      Call = sample_call\<rparr>"

text \<open>The sample world: alice and carol hold funds, \<open>tmpl\<close> is a template and \<open>ctr\<close> a
  contract, both with carol in the front of their "coinbase" slot; bob has no account.\<close>

definition sample_slot :: "byte list \<Rightarrow> hash" where
  "sample_slot xs = xs @ replicate (32 - length xs) 0"

definition sample_state :: StateDB where
  "sample_state =
     \<lparr>accounts =
        [alice \<mapsto> \<lparr>acc_balance = 1000000, acc_nonce = 7, acc_code = [], acc_storage = Map.empty\<rparr>,
         carol \<mapsto> \<lparr>acc_balance = 500, acc_nonce = 0, acc_code = [], acc_storage = Map.empty\<rparr>,
         tmpl \<mapsto> \<lparr>acc_balance = 0, acc_nonce = 1, acc_code = [0x60, 0x01],
                   acc_storage = [sample_slot (go_bytes ''type'') \<mapsto> sample_slot (go_bytes ''template''),
                                  sample_slot (go_bytes ''coinbase'') \<mapsto> sample_slot carol]\<rparr>,
         ctr \<mapsto> \<lparr>acc_balance = 0, acc_nonce = 1, acc_code = [0x60, 0x02],
                  acc_storage = [sample_slot (go_bytes ''type'') \<mapsto> sample_slot (go_bytes ''contract''),
                                 sample_slot (go_bytes ''coinbase'') \<mapsto> sample_slot carol]\<rparr>],
      refund = 0\<rparr>"

definition sample_msg :: "address option \<Rightarrow> int \<Rightarrow> int \<Rightarrow> int \<Rightarrow> uint64 \<Rightarrow> bytes \<Rightarrow> Message" where
  "sample_msg to g price v n d =
     \<lparr>From = alice, To = to, GasPrice = price, Gas = g, Value = v, Nonce = n,
      CheckNonce = True, Data = d\<rparr>"

definition sample_st :: "Message \<Rightarrow> TxType \<Rightarrow> StateTransition" where
  "sample_st m k = NewStateTransition sample_evm sample_state m 8000000 (Some [miner]) [0xAA] k"

text \<open>A transition at the refund step: 74000 of 100000 gas left, 15000 on the refund counter.\<close>

definition refund_st :: StateTransition where
  "refund_st = (sample_st (sample_msg (Some bob) 100000 1 10 7 None) Binary)
                 \<lparr>gas := 74000, initialGas := 100000, state := sample_state\<lparr>refund := 15000\<rparr>\<rparr>"

subsection \<open>Names for what TransitionDb computes on the way\<close>

text \<open>The \<open>addressType\<close> that \<open>TransitionDb\<close> resolves for the recipient (the key is the
  value of \<open>HashTypeString("type")\<close>), and the intrinsic gas it charges.\<close>

definition resolved_role :: "StateTransition \<Rightarrow> string" where
  "resolved_role st =
     (case To (msg st) of None \<Rightarrow> []
      | Some to \<Rightarrow> GetAddressType (GetState (state st) to (go_bytes ''type'' @ replicate 28 0)))"

definition intrinsic_of :: "params \<Rightarrow> StateTransition \<Rightarrow> int" where
  "intrinsic_of P st =
     IntrinsicGas P (data st)
       (case To (msg st) of None \<Rightarrow> True | Some to \<Rightarrow> resolved_role st = ''template'')
       (IsHomestead (evm st))"

section \<open>Properties\<close>

subsection \<open>Loops over index ranges\<close>

lemma map_nth_upt_take: "n \<le> length xs \<Longrightarrow> map ((!) xs) [0..<n] = take n xs"
  by (rule nth_equalityI) auto

lemma fold_snoc_upt:
  "fold (\<lambda>i acc. acc @ g i) is acc = acc @ concat (map g is)"
  by (induction "is" arbitrary: acc) simp_all

lemma fold_snoc_nth:
  assumes "n \<le> length xs"
  shows "fold (\<lambda>i acc. acc @ [xs ! i]) [0..<n] acc = acc @ take n xs"
proof -
  have "fold (\<lambda>i acc. acc @ [xs ! i]) [0..<n] acc = acc @ concat (map (\<lambda>i. [xs ! i]) [0..<n])"
    by (rule fold_snoc_upt)
  also have "concat (map (\<lambda>i. [xs ! i]) [0..<n]) = map ((!) xs) [0..<n]"
    by (induction n) simp_all
  finally show ?thesis using assms by (simp add: map_nth_upt_take)
qed

lemma fold_update_nth:
  "n \<le> length a \<Longrightarrow> n \<le> length xs \<Longrightarrow>
   fold (\<lambda>i a. a[i := xs ! i]) [0..<n] a = take n xs @ drop n a"
proof (induction n)
  case 0
  then show ?case by simp
next
  case (Suc n)
  then have "fold (\<lambda>i a. a[i := xs ! i]) [0..<Suc n] a = (take n xs @ drop n a)[n := xs ! n]"
    by simp
  also have "\<dots> = take (Suc n) xs @ drop (Suc n) a"
    using Suc.prems
    by (intro nth_equalityI) (auto simp: nth_append nth_list_update less_Suc_eq)
  finally show ?case .
qed

lemma byteAppend_take: "20 \<le> length coinbase \<Longrightarrow> byteAppend t coinbase = t @ take 20 coinbase"
  by (simp add: byteAppend_def fold_snoc_nth)

lemma byteAppendAddress_take: "20 \<le> length a \<Longrightarrow> byteAppendAddress t a = t @ take 20 a"
  by (simp add: byteAppendAddress_def fold_snoc_nth)

lemma ByteAndByte_append: "ByteAndByte t d = t @ elems d"
  by (cases d) (simp_all add: ByteAndByte_def len_def elems_def fold_snoc_nth)

lemma CommonHash2Address_take: "20 \<le> length h \<Longrightarrow> CommonHash2Address h = take 20 h"
  by (simp add: CommonHash2Address_def fold_update_nth)

lemma HashTypeString_type:
  "HashTypeString ''type'' = Some (go_bytes ''type'' @ replicate 28 0)"
  by code_simp

lemma HashTypeString_coinbase:
  "HashTypeString ''coinbase'' = Some (go_bytes ''coinbase'' @ replicate 24 0)"
  by code_simp

subsection \<open>The account classifier\<close>

lemma string_of_byte_cases:
  "(b < 0x80 \<and> string_of_byte b = [b]) \<or>
   (\<not> b < 0x80 \<and> (\<exists>c d. string_of_byte b = [c, d] \<and> \<not> c < 0x80))"
proof (cases "b < 0x80")
  case True
  then show ?thesis by (simp add: string_of_byte_def)
next
  case False
  have "(0xC0 :: byte) \<le> 0xC0 OR drop_bit 6 b"
    by (rule le_word_or2)
  then have "\<not> (0xC0 OR drop_bit 6 b) < (0x80 :: byte)"
    by (simp add: word_le_nat_alt word_less_nat_alt)
  with False show ?thesis by (simp add: string_of_byte_def)
qed

lemma concat_string_of_byte_ascii:
  "\<forall>y \<in> set ys. y < 0x80 \<Longrightarrow> concat (map string_of_byte xs) = ys \<longleftrightarrow> xs = ys"
proof (induction xs arbitrary: ys)
  case Nil
  then show ?case by auto
next
  case (Cons x xs)
  from string_of_byte_cases [of x] show ?case
  proof (elim disjE conjE exE)
    assume "x < 0x80" "string_of_byte x = [x]"
    then show ?thesis using Cons by (cases ys) auto
  next
    fix c d assume "\<not> x < 0x80" "string_of_byte x = [c, d]" "\<not> c < 0x80"
    then show ?thesis using Cons.prems by (cases ys) auto
  qed
qed

lemma GetAddressType_string:
  assumes "8 \<le> length h"
  shows "fold (\<lambda>i st. st @ string_of_byte (h ! i)) [0..<8] [] = concat (map string_of_byte (take 8 h))"
proof -
  have "fold (\<lambda>i st. st @ string_of_byte (h ! i)) [0..<8] []
          = concat (map (\<lambda>i. string_of_byte (h ! i)) [0..<8])"
    by (simp only: fold_snoc_upt append_Nil)
  also have "map (\<lambda>i. string_of_byte (h ! i)) [0..<8] = map string_of_byte (map ((!) h) [0..<8])"
    by (simp only: map_map comp_def)
  finally show ?thesis using assms by (simp only: map_nth_upt_take)
qed

lemma GetAddressType_take8:
  assumes "8 \<le> length h"
  shows "GetAddressType h =
           (if take 8 h = go_bytes ''template'' then ''template''
            else if take 8 h = go_bytes ''contract'' then ''contract''
            else ''normal'')"
proof -
  have t: "concat (map string_of_byte (take 8 h)) = go_bytes ''template'' \<longleftrightarrow> take 8 h = go_bytes ''template''"
    by (rule concat_string_of_byte_ascii) (simp add: go_bytes_def)
  have c: "concat (map string_of_byte (take 8 h)) = go_bytes ''contract'' \<longleftrightarrow> take 8 h = go_bytes ''contract''"
    by (rule concat_string_of_byte_ascii) (simp add: go_bytes_def)
  show ?thesis
    unfolding GetAddressType_def GetAddressType_string [OF assms] Let_def t c ..
qed

text \<open>Claim C10. The role of an address is a function of the 32-byte value of its "type"
  slot alone, and of that value's first 8 bytes only: it is "template" when they spell
  \<open>template\<close>, "contract" when they spell \<open>contract\<close>, and "normal" for every other
  value, the zero hash of an unset slot included. Two values that agree on their first 8
  bytes get the same role, whatever the other 24 bytes are.\<close>

theorem GetAddressType_first_8_bytes:
  assumes "length h = 32"
  shows "GetAddressType h =
           (if take 8 h = go_bytes ''template'' then ''template''
            else if take 8 h = go_bytes ''contract'' then ''contract''
            else ''normal'')
         \<and> (\<forall>h'. length h' = 32 \<and> take 8 h' = take 8 h \<longrightarrow> GetAddressType h' = GetAddressType h)
         \<and> GetAddressType (replicate 32 0) = ''normal''"
proof -
  have z: "GetAddressType (replicate 32 0) = ''normal''"
    by (simp add: GetAddressType_def go_bytes_def string_of_byte_def upt_rec)
  from assms show ?thesis
    by (simp add: GetAddressType_take8 z)
qed

theorem GetAddressType_first_8_bytes_witness:
  "length (go_bytes ''template'' @ replicate 24 (0xFF :: byte)) = 32
   \<and> GetAddressType (go_bytes ''template'' @ replicate 24 0xFF) = ''template''"
proof -
  have l: "length (go_bytes ''template'' @ replicate 24 (0xFF :: byte)) = 32"
    by (simp add: go_bytes_def)
  have t: "take 8 (go_bytes ''template'' @ replicate 24 (0xFF :: byte)) = go_bytes ''template''"
    by (simp add: go_bytes_def)
  from GetAddressType_first_8_bytes [OF l]
  have "GetAddressType (go_bytes ''template'' @ replicate 24 0xFF) =
          (if take 8 (go_bytes ''template'' @ replicate 24 (0xFF :: byte)) = go_bytes ''template''
           then ''template''
           else if take 8 (go_bytes ''template'' @ replicate 24 (0xFF :: byte)) = go_bytes ''contract''
                then ''contract'' else ''normal'')"
    by (rule conjunct1)
  then have "GetAddressType (go_bytes ''template'' @ replicate 24 0xFF) = ''template''"
    unfolding t by simp
  with l show ?thesis by (rule conjI)
qed

subsection \<open>World state\<close>

lemma GetBalance_CreateAccount [simp]: "GetBalance (CreateAccount s a) b = GetBalance s b"
  by (simp add: GetBalance_def CreateAccount_def getAccount_def)

lemma GetBalance_AddBalance [simp]:
  "GetBalance (AddBalance s a v) b = (if b = a then GetBalance s a + v else GetBalance s b)"
  by (simp add: GetBalance_def AddBalance_def getAccount_def)

lemma GetBalance_SubBalance [simp]:
  "GetBalance (SubBalance s a v) b = (if b = a then GetBalance s a - v else GetBalance s b)"
  by (simp add: GetBalance_def SubBalance_def getAccount_def)

lemma GetState_AddBalance [simp]: "GetState (AddBalance s a v) b k = GetState s b k"
  by (simp add: GetState_def AddBalance_def getAccount_def)

lemma GetNonce_CreateAccount [simp]:
  "\<not> Exist s a \<Longrightarrow> GetNonce (CreateAccount s a) b = GetNonce s b"
  by (simp add: GetNonce_def CreateAccount_def getAccount_def Exist_def empty_account_def)

lemma GetRefund_AddBalance [simp]: "GetRefund (AddBalance s a v) = GetRefund s"
  by (simp add: GetRefund_def AddBalance_def)

subsection \<open>The sender\<close>

lemma from'_sender [simp]: "fst (from' st) = From (msg st)"
  by (simp add: from'_def Let_def)

lemma from'_fields [simp]:
  "msg (snd (from' st)) = msg st" "gp (snd (from' st)) = gp st" "gas (snd (from' st)) = gas st"
  "gasPrice (snd (from' st)) = gasPrice st" "initialGas (snd (from' st)) = initialGas st"
  "value' (snd (from' st)) = value' st" "data (snd (from' st)) = data st"
  "evm (snd (from' st)) = evm st" "ValidatorS (snd (from' st)) = ValidatorS st"
  "txType (snd (from' st)) = txType st" "txHash (snd (from' st)) = txHash st"
  by (simp_all add: from'_def Let_def)

lemma from'_balance [simp]: "GetBalance (state (snd (from' st))) a = GetBalance (state st) a"
  by (simp add: from'_def Let_def)

lemma from'_nonce [simp]: "GetNonce (state (snd (from' st))) a = GetNonce (state st) a"
  by (simp add: from'_def Let_def)

lemma from'_refund [simp]: "GetRefund (state (snd (from' st))) = GetRefund (state st)"
  by (simp add: from'_def Let_def GetRefund_def CreateAccount_def)

lemma from'_idem [simp]: "from' (snd (from' st)) = from' st"
  by (simp add: from'_def Let_def Exist_def CreateAccount_def)

lemma gasUsed_from' [simp]: "gasUsed (snd (from' st)) = gasUsed st"
  by (simp add: gasUsed_def)

subsection \<open>Nonce check\<close>

lemma preCheck_nonce_mismatch:
  assumes "CheckNonce (msg st)" and "Nonce (msg st) \<noteq> GetNonce (state st) (From (msg st))"
  shows "preCheck st =
           (Some (if GetNonce (state st) (From (msg st)) < Nonce (msg st)
                  then ErrNonceTooHigh else ErrNonceTooLow), snd (from' st))"
  using assms by (auto simp: preCheck_def Let_def split_beta)

text \<open>Claim C5. When nonce checking is on and the message nonce differs from the sender's
  nonce in the state, the transition fails with \<open>ErrNonceTooHigh\<close> (message nonce above
  the state nonce) or \<open>ErrNonceTooLow\<close> (below it). The failure comes before the gas
  purchase: no balance changes, and the gas pool, the gas budget and the initial gas are
  what they were.\<close>

theorem nonce_mismatch_fails_before_gas_purchase:
  assumes "CheckNonce (msg st)" and "Nonce (msg st) \<noteq> GetNonce (state st) (From (msg st))"
  shows "fst (TransitionDb P st) =
           Inl (if GetNonce (state st) (From (msg st)) < Nonce (msg st)
                then ErrNonceTooHigh else ErrNonceTooLow)
         \<and> (\<forall>a. GetBalance (state (snd (TransitionDb P st))) a = GetBalance (state st) a)
         \<and> gp (snd (TransitionDb P st)) = gp st
         \<and> gas (snd (TransitionDb P st)) = gas st
         \<and> initialGas (snd (TransitionDb P st)) = initialGas st"
proof -
  have "TransitionDb P st =
          (Inl (if GetNonce (state st) (From (msg st)) < Nonce (msg st)
                then ErrNonceTooHigh else ErrNonceTooLow), snd (from' st))"
    by (simp add: TransitionDb_def prepare_def preCheck_nonce_mismatch [OF assms])
  then show ?thesis by simp
qed

lemma sample_nonce: "GetNonce sample_state alice = 7"
  by (simp add: GetNonce_def getAccount_def sample_state_def alice_def carol_def tmpl_def ctr_def)

lemma sample_balance: "GetBalance sample_state alice = 1000000"
  by (simp add: GetBalance_def getAccount_def sample_state_def alice_def carol_def tmpl_def ctr_def)

theorem nonce_mismatch_fails_before_gas_purchase_witness:
  "fst (TransitionDb sample_params (sample_st (sample_msg (Some bob) 100000 1 10 8 None) Binary))
     = Inl ErrNonceTooHigh
   \<and> fst (TransitionDb sample_params (sample_st (sample_msg (Some bob) 100000 1 10 6 None) Binary))
     = Inl ErrNonceTooLow
   \<and> GetBalance (state (snd (TransitionDb sample_params
        (sample_st (sample_msg (Some bob) 100000 1 10 6 None) Binary)))) alice = 1000000"
  using nonce_mismatch_fails_before_gas_purchase
          [of "sample_st (sample_msg (Some bob) 100000 1 10 8 None) Binary" sample_params]
        nonce_mismatch_fails_before_gas_purchase
          [of "sample_st (sample_msg (Some bob) 100000 1 10 6 None) Binary" sample_params]
  by (simp add: sample_st_def sample_msg_def NewStateTransition_def sample_nonce sample_balance)

subsection \<open>Refund\<close>

lemma uint_Uint64: "0 \<le> x \<Longrightarrow> x < 2 ^ 64 \<Longrightarrow> uint (Uint64 x) = x"
  by (simp add: Uint64_def uint_word_of_int)

lemma uint_add_Uint64:
  assumes "0 \<le> x" and "uint g + x < 2 ^ 64"
  shows "uint (g + Uint64 x) = uint g + x"
proof -
  have "0 \<le> uint g" by simp
  with assms have x: "x < 2 ^ 64" by linarith
  have "uint (g + Uint64 x) = (uint g + uint (Uint64 x)) mod 2 ^ 64"
    by (simp add: uint_word_ariths)
  also have "\<dots> = (uint g + x) mod 2 ^ 64"
    using assms(1) x by (simp add: uint_Uint64)
  also have "\<dots> = uint g + x"
    using assms by simp
  finally show ?thesis .
qed

lemma refundGas_unfold:
  "refundGas st =
     (let sender = From (msg st);
          r = min (gasUsed st div 2) (GetRefund (state st));
          g = gas st + Uint64 r
      in (snd (from' st))
           \<lparr>state := AddBalance (AddBalance (state (snd (from' st))) sender (uint (gas st) * gasPrice st))
                       sender (r * gasPrice st),
            gas := g,
            gp := AddGas (gp st) (uint g)\<rparr>)"
  by (simp add: refundGas_def Let_def split_beta gasUsed_def)

text \<open>Claim C2. At the refund step, with the gas budget within the gas bought and a
  refund counter that is not negative: \<open>refundGas\<close> credits the sender with the remaining
  gas times \<open>gasPrice\<close> (the price the gas was bought at) and with the refund
  \<open>min (refund counter) (gasUsed div 2)\<close> times the same price, adds that refund to the
  gas budget, and returns the whole budget, remaining gas plus refund, to the gas pool.
  The refund applied is at most half of the gas used, whatever the counter holds.\<close>

theorem refundGas_credits_and_cap:
  assumes "0 \<le> GetRefund (state st)"
    and "uint (gas st) \<le> initialGas st"
    and "initialGas st < 2 ^ 64"
  shows "GetBalance (state (refundGas st)) (From (msg st)) =
           GetBalance (state st) (From (msg st))
             + uint (gas st) * gasPrice st
             + min (GetRefund (state st)) (gasUsed st div 2) * gasPrice st
         \<and> uint (gas (refundGas st)) = uint (gas st) + min (GetRefund (state st)) (gasUsed st div 2)
         \<and> gp (refundGas st) = gp st + (uint (gas st) + min (GetRefund (state st)) (gasUsed st div 2))
         \<and> uint (gas (refundGas st)) - uint (gas st) \<le> gasUsed st div 2
         \<and> gasPrice (refundGas st) = gasPrice st"
proof -
  let ?r = "min (gasUsed st div 2) (GetRefund (state st))"
  have u: "0 \<le> gasUsed st" using assms(2) by (simp add: gasUsed_def)
  then have r0: "0 \<le> ?r" using assms(1) by simp
  have "?r \<le> gasUsed st div 2" by simp
  also have "\<dots> \<le> gasUsed st" using u by simp
  finally have "uint (gas st) + ?r \<le> initialGas st" by (simp add: gasUsed_def)
  with assms(3) have "uint (gas st) + ?r < 2 ^ 64" by linarith
  with r0 have g: "uint (gas st + Uint64 ?r) = uint (gas st) + ?r"
    by (rule uint_add_Uint64)
  have m: "min (GetRefund (state st)) (gasUsed st div 2) = ?r" by (simp add: min.commute)
  show ?thesis
    unfolding m
    by (simp add: refundGas_unfold Let_def g AddGas_def algebra_simps)
qed

theorem refundGas_credits_and_cap_witness:
  "0 \<le> GetRefund (state refund_st)
   \<and> uint (gas refund_st) \<le> initialGas refund_st
   \<and> initialGas refund_st < 2 ^ 64
   \<and> GetBalance (state (refundGas refund_st)) alice = 1000000 + 74000 + 13000
   \<and> uint (gas (refundGas refund_st)) = 87000
   \<and> gp (refundGas refund_st) = 8000000 + 87000"
proof -
  have b: "GetBalance (sample_state\<lparr>refund := 15000\<rparr>) alice = 1000000"
    by (simp add: GetBalance_def getAccount_def sample_state_def alice_def carol_def tmpl_def ctr_def)
  have f: "From (msg refund_st) = alice" "gp refund_st = 8000000" "gasPrice refund_st = 1"
    "gas refund_st = 74000" "initialGas refund_st = 100000"
    "state refund_st = sample_state\<lparr>refund := 15000\<rparr>"
    by (simp_all add: refund_st_def sample_st_def sample_msg_def NewStateTransition_def)
  have h: "0 \<le> GetRefund (state refund_st)" "uint (gas refund_st) \<le> initialGas refund_st"
    "initialGas refund_st < 2 ^ 64"
    by (simp_all add: f GetRefund_def)
  from refundGas_credits_and_cap [OF h] h show ?thesis
    by (simp add: f b GetRefund_def gasUsed_def)
qed

subsection \<open>Gas purchase\<close>

lemma bitlen_nat_le_iff: "bitlen_nat n \<le> k \<longleftrightarrow> n < 2 ^ k"
proof (induction n arbitrary: k rule: bitlen_nat.induct)
  case (1 n)
  show ?case
  proof (cases "n = 0")
    case True
    then show ?thesis by (simp add: bitlen_nat.simps)
  next
    case False
    show ?thesis
    proof (cases k)
      case 0
      with False show ?thesis by (simp add: bitlen_nat.simps [of n])
    next
      case (Suc k')
      have "bitlen_nat n \<le> Suc k' \<longleftrightarrow> bitlen_nat (n div 2) \<le> k'"
        using False by (simp add: bitlen_nat.simps [of n])
      also have "\<dots> \<longleftrightarrow> n div 2 < 2 ^ k'"
        using False by (rule "1.IH")
      also have "\<dots> \<longleftrightarrow> n < 2 ^ Suc k'"
        by (simp add: less_mult_imp_div_less div_less_iff_less_mult mult.commute)
      finally show ?thesis using Suc by simp
    qed
  qed
qed

lemma BitLen_le_64: "\<not> 64 < BitLen x \<longleftrightarrow> \<bar>x\<bar> < 2 ^ 64"
proof -
  have "\<not> 64 < BitLen x \<longleftrightarrow> nat \<bar>x\<bar> < 2 ^ 64"
    by (simp add: BitLen_def not_less bitlen_nat_le_iff)
  also have "\<dots> \<longleftrightarrow> \<bar>x\<bar> < 2 ^ 64"
    by (simp add: nat_less_iff)
  finally show ?thesis .
qed

lemma GetState_SubBalance [simp]: "GetState (SubBalance s a v) b k = GetState s b k"
  by (simp add: GetState_def SubBalance_def getAccount_def)

lemma GetCode_SubBalance [simp]: "GetCode (SubBalance s a v) b = GetCode s b"
  by (simp add: GetCode_def SubBalance_def getAccount_def)

lemma GetRefund_SubBalance [simp]: "GetRefund (SubBalance s a v) = GetRefund s"
  by (simp add: GetRefund_def SubBalance_def)

lemma GetState_CreateAccount [simp]:
  "\<not> Exist s a \<Longrightarrow> GetState (CreateAccount s a) b k = GetState s b k"
  by (simp add: GetState_def CreateAccount_def getAccount_def Exist_def empty_account_def)

lemma GetCode_CreateAccount [simp]:
  "\<not> Exist s a \<Longrightarrow> GetCode (CreateAccount s a) b = GetCode s b"
  by (simp add: GetCode_def CreateAccount_def getAccount_def Exist_def empty_account_def)

lemma from'_storage [simp]: "GetState (state (snd (from' st))) b k = GetState (state st) b k"
  by (simp add: from'_def Let_def)

lemma from'_code [simp]: "GetCode (state (snd (from' st))) b = GetCode (state st) b"
  by (simp add: from'_def Let_def)

lemma buyGas_fields [simp]:
  "msg (snd (buyGas st)) = msg st" "gasPrice (snd (buyGas st)) = gasPrice st"
  "value' (snd (buyGas st)) = value' st" "data (snd (buyGas st)) = data st"
  "evm (snd (buyGas st)) = evm st" "ValidatorS (snd (buyGas st)) = ValidatorS st"
  "txType (snd (buyGas st)) = txType st" "txHash (snd (buyGas st)) = txHash st"
  by (simp_all add: buyGas_def SubGas_def Let_def split_beta)

lemma buyGas_world [simp]:
  "GetRefund (state (snd (buyGas st))) = GetRefund (state st)"
  "GetState (state (snd (buyGas st))) b k = GetState (state st) b k"
  "GetCode (state (snd (buyGas st))) b = GetCode (state st) b"
  by (simp_all add: buyGas_def SubGas_def Let_def split_beta)

lemma buyGas_ok:
  assumes "fst (buyGas st) = None"
  shows "gp (snd (buyGas st)) = gp st - Gas (msg st)"
    and "gas (snd (buyGas st)) = gas st + Uint64 (Gas (msg st))"
    and "initialGas (snd (buyGas st)) = Gas (msg st)"
    and "\<bar>Gas (msg st)\<bar> < 2 ^ 64"
    and "GetBalance (state (snd (buyGas st))) a =
           (if a = From (msg st) then GetBalance (state st) a - Gas (msg st) * gasPrice st
            else GetBalance (state st) a)"
proof -
  from assms have b: "\<not> 64 < BitLen (Gas (msg st))"
    by (simp add: buyGas_def Let_def split: if_splits)
  then show "\<bar>Gas (msg st)\<bar> < 2 ^ 64" by (simp only: BitLen_le_64)
  from assms b have c: "\<not> GetBalance (state st) (From (msg st)) < Gas (msg st) * gasPrice st"
    by (simp add: buyGas_def Let_def split_beta split: if_splits)
  from assms b c have d: "\<not> gp st < Gas (msg st)"
    by (simp add: buyGas_def SubGas_def Let_def split_beta split: if_splits)
  from b c d show "gp (snd (buyGas st)) = gp st - Gas (msg st)"
    and "gas (snd (buyGas st)) = gas st + Uint64 (Gas (msg st))"
    and "initialGas (snd (buyGas st)) = Gas (msg st)"
    and "GetBalance (state (snd (buyGas st))) a =
           (if a = From (msg st) then GetBalance (state st) a - Gas (msg st) * gasPrice st
            else GetBalance (state st) a)"
    by (simp_all add: buyGas_def SubGas_def Let_def split_beta)
qed

subsection \<open>The stretch before the dispatch\<close>

lemma preCheck_fields [simp]:
  "msg (snd (preCheck st)) = msg st" "gasPrice (snd (preCheck st)) = gasPrice st"
  "value' (snd (preCheck st)) = value' st" "data (snd (preCheck st)) = data st"
  "evm (snd (preCheck st)) = evm st" "ValidatorS (snd (preCheck st)) = ValidatorS st"
  "txType (snd (preCheck st)) = txType st" "txHash (snd (preCheck st)) = txHash st"
  by (simp_all add: preCheck_def Let_def split_beta)

lemma preCheck_world [simp]:
  "GetRefund (state (snd (preCheck st))) = GetRefund (state st)"
  "GetState (state (snd (preCheck st))) b k = GetState (state st) b k"
  "GetCode (state (snd (preCheck st))) b = GetCode (state st) b"
  by (simp_all add: preCheck_def Let_def split_beta)

lemma preCheck_ok:
  assumes "fst (preCheck st) = None"
  shows "gp (snd (preCheck st)) = gp st - Gas (msg st)"
    and "gas (snd (preCheck st)) = gas st + Uint64 (Gas (msg st))"
    and "initialGas (snd (preCheck st)) = Gas (msg st)"
    and "\<bar>Gas (msg st)\<bar> < 2 ^ 64"
    and "GetBalance (state (snd (preCheck st))) a =
           (if a = From (msg st) then GetBalance (state st) a - Gas (msg st) * gasPrice st
            else GetBalance (state st) a)"
proof -
  from assms have p: "preCheck st = buyGas (snd (from' st))"
    by (simp add: preCheck_def Let_def split_beta split: if_splits)
  with assms have "fst (buyGas (snd (from' st))) = None" by simp
  from buyGas_ok [OF this]
  show "gp (snd (preCheck st)) = gp st - Gas (msg st)"
    and "gas (snd (preCheck st)) = gas st + Uint64 (Gas (msg st))"
    and "initialGas (snd (preCheck st)) = Gas (msg st)"
    and "\<bar>Gas (msg st)\<bar> < 2 ^ 64"
    and "GetBalance (state (snd (preCheck st))) a =
           (if a = From (msg st) then GetBalance (state st) a - Gas (msg st) * gasPrice st
            else GetBalance (state st) a)"
    by (simp_all add: p)
qed

lemma prepare_fail:
  "fst (preCheck st) = Some e \<Longrightarrow> prepare P st = (Inl e, snd (preCheck st))"
  by (simp add: prepare_def split_beta)

lemma prepare_unfold:
  assumes "fst (preCheck st) = None"
  shows "prepare P st =
     (let st1 = snd (from' (snd (preCheck st)));
          aty = (case To (msg st) of None \<Rightarrow> []
                 | Some to \<Rightarrow> GetAddressType (GetState (state st) to (go_bytes ''type'' @ replicate 28 0)));
          cc = (case To (msg st) of None \<Rightarrow> True | Some to \<Rightarrow> aty = ''template'');
          ig = IntrinsicGas P (data st) cc (IsHomestead (evm st))
      in if 64 < BitLen ig then (Inl ErrOutOfGas, st1)
         else if gas st1 < Uint64 ig then (Inl ErrOutOfGas, st1)
         else (Inr (From (msg st), aty), st1\<lparr>gas := gas st1 - Uint64 ig\<rparr>))"
  using assms
  by (cases "To (msg st)")
     (simp_all add: prepare_def split_beta Let_def HashTypeString_type useGas_def)

lemma prepare_fields [simp]:
  "msg (snd (prepare P st)) = msg st" "gasPrice (snd (prepare P st)) = gasPrice st"
  "value' (snd (prepare P st)) = value' st" "data (snd (prepare P st)) = data st"
  "evm (snd (prepare P st)) = evm st" "ValidatorS (snd (prepare P st)) = ValidatorS st"
  "txType (snd (prepare P st)) = txType st" "txHash (snd (prepare P st)) = txHash st"
  by (cases "fst (preCheck st)"; simp add: prepare_unfold prepare_fail Let_def)+

lemma prepare_world [simp]:
  "GetRefund (state (snd (prepare P st))) = GetRefund (state st)"
  "GetState (state (snd (prepare P st))) b k = GetState (state st) b k"
  "GetCode (state (snd (prepare P st))) b = GetCode (state st) b"
  by (cases "fst (preCheck st)"; simp add: prepare_unfold prepare_fail Let_def)+

lemma prepare_ok:
  assumes "fst (prepare P st) = Inr (sender, aty)"
  shows "sender = From (msg st)"
    and "aty = resolved_role st"
    and "gp (snd (prepare P st)) = gp st - Gas (msg st)"
    and "initialGas (snd (prepare P st)) = Gas (msg st)"
    and "\<bar>Gas (msg st)\<bar> < 2 ^ 64"
    and "GetBalance (state (snd (prepare P st))) a =
           (if a = From (msg st) then GetBalance (state st) a - Gas (msg st) * gasPrice st
            else GetBalance (state st) a)"
    and "gas (snd (prepare P st)) = gas st + Uint64 (Gas (msg st)) - Uint64 (intrinsic_of P st)"
    and "\<not> gas st + Uint64 (Gas (msg st)) < Uint64 (intrinsic_of P st)"
    and "\<bar>intrinsic_of P st\<bar> < 2 ^ 64"
proof -
  from assms have p: "fst (preCheck st) = None"
    by (cases "fst (preCheck st)") (simp_all add: prepare_fail)
  note u = prepare_unfold [OF p, of P, folded resolved_role_def, unfolded Let_def, folded intrinsic_of_def]
  from assms have b: "\<not> 64 < BitLen (intrinsic_of P st)"
    by (simp add: u split: if_splits)
  then show "\<bar>intrinsic_of P st\<bar> < 2 ^ 64" by (simp only: BitLen_le_64)
  from assms b have g: "\<not> gas (snd (preCheck st)) < Uint64 (intrinsic_of P st)"
    by (simp add: u split: if_splits)
  then show "\<not> gas st + Uint64 (Gas (msg st)) < Uint64 (intrinsic_of P st)"
    by (simp add: preCheck_ok [OF p])
  from assms b g show "sender = From (msg st)" and "aty = resolved_role st"
    by (simp_all add: u)
  from b g show "gp (snd (prepare P st)) = gp st - Gas (msg st)"
    and "initialGas (snd (prepare P st)) = Gas (msg st)"
    and "GetBalance (state (snd (prepare P st))) a =
           (if a = From (msg st) then GetBalance (state st) a - Gas (msg st) * gasPrice st
            else GetBalance (state st) a)"
    and "gas (snd (prepare P st)) = gas st + Uint64 (Gas (msg st)) - Uint64 (intrinsic_of P st)"
    by (simp_all add: u preCheck_ok [OF p])
  from preCheck_ok(4) [OF p] show "\<bar>Gas (msg st)\<bar> < 2 ^ 64" .
qed

subsection \<open>The dispatch\<close>

lemma GetNonce_SubBalance [simp]: "GetNonce (SubBalance s a v) b = GetNonce s b"
  by (simp add: GetNonce_def SubBalance_def getAccount_def)

lemma prepare_nonce [simp]: "GetNonce (state (snd (prepare P st))) a = GetNonce (state st) a"
proof (cases "fst (preCheck st)")
  case None
  have "GetNonce (state (snd (buyGas s))) a = GetNonce (state s) a" for s
    by (simp add: buyGas_def SubGas_def Let_def split_beta)
  then have "GetNonce (state (snd (preCheck st))) a = GetNonce (state st) a"
    by (simp add: preCheck_def Let_def split_beta)
  with None show ?thesis by (simp add: prepare_unfold Let_def)
next
  case (Some e)
  have "GetNonce (state (snd (buyGas s))) a = GetNonce (state s) a" for s
    by (simp add: buyGas_def SubGas_def Let_def split_beta)
  then have "GetNonce (state (snd (preCheck st))) a = GetNonce (state st) a"
    by (simp add: preCheck_def Let_def split_beta)
  with Some show ?thesis by (simp add: prepare_fail)
qed

lemma GetAddressType_range:
  "GetAddressType h = ''template'' \<or> GetAddressType h = ''contract'' \<or> GetAddressType h = ''normal''"
  by (simp add: GetAddressType_def Let_def)

lemma assignResult_fields [simp]:
  "gp (snd (assignResult r st)) = gp st" "initialGas (snd (assignResult r st)) = initialGas st"
  "msg (snd (assignResult r st)) = msg st" "gasPrice (snd (assignResult r st)) = gasPrice st"
  "evm (snd (assignResult r st)) = evm st"
  by (simp_all add: assignResult_def split_beta)

lemma incrementNonce_fields [simp]:
  "gp (incrementNonce a st) = gp st" "initialGas (incrementNonce a st) = initialGas st"
  "msg (incrementNonce a st) = msg st" "gasPrice (incrementNonce a st) = gasPrice st"
  "evm (incrementNonce a st) = evm st" "gas (incrementNonce a st) = gas st"
  "data (incrementNonce a st) = data st" "value' (incrementNonce a st) = value' st"
  "txHash (incrementNonce a st) = txHash st" "ValidatorS (incrementNonce a st) = ValidatorS st"
  by (simp_all add: incrementNonce_def)

lemma dispatch_fields [simp]:
  "gp (snd (dispatch sender aty st)) = gp st"
  "initialGas (snd (dispatch sender aty st)) = initialGas st"
  "msg (snd (dispatch sender aty st)) = msg st"
  "gasPrice (snd (dispatch sender aty st)) = gasPrice st"
  "evm (snd (dispatch sender aty st)) = evm st"
  by (simp_all add: dispatch_def HashTypeString_coinbase Let_def split: option.splits)

lemma TransitionDb_unfold:
  assumes "fst (prepare P st) = Inr (sender, aty)"
  shows "TransitionDb P st =
           (case dispatch sender aty (snd (prepare P st)) of
              (Inl err, st') \<Rightarrow> (Inl err, st')
            | (Inr (ret, vmerr), st') \<Rightarrow> finish aty ret vmerr st')"
  by (simp add: TransitionDb_def split_beta assms split: sum.splits)

text \<open>Claim C1. Once the transition has reached the dispatch (the nonce check, the gas
  purchase and the intrinsic gas have passed) with a recipient present, every pair of
  resolved role and kind outside the decision table (template with a kind other than
  Binary, SourceCode, Endorse; contract with a kind other than Endorse, Binary; normal
  with a kind other than Endorse, Binary, LoginCandidate, LogoutCandidate, Delegate,
  UnDelegate) makes \<open>TransitionDb\<close> return \<open>ErrInvalidType\<close>: an error value, neither a
  panic nor a result. The role is the one resolved from the recipient's "type" slot, and
  it is always one of the three.\<close>

theorem unlisted_role_kind_is_invalid_type:
  assumes "fst (prepare P st) = Inr (sender, aty)"
    and "To (msg st) = Some to"
    and "aty = ''template'' \<and> txType st \<notin> {Binary, SourceCode, Endorse}
         \<or> aty = ''contract'' \<and> txType st \<notin> {Endorse, Binary}
         \<or> aty = ''normal'' \<and> txType st \<notin> {Endorse, Binary, LoginCandidate, LogoutCandidate,
                                              Delegate, UnDelegate}"
  shows "TransitionDb P st = (Inl ErrInvalidType, snd (prepare P st))
         \<and> aty = resolved_role st
         \<and> (resolved_role st = ''template'' \<or> resolved_role st = ''contract''
              \<or> resolved_role st = ''normal'')"
proof -
  have d: "dispatch sender aty (snd (prepare P st)) = (Inl ErrInvalidType, snd (prepare P st))"
    using assms(2,3) by (auto simp: dispatch_def)
  have r: "resolved_role st = ''template'' \<or> resolved_role st = ''contract''
            \<or> resolved_role st = ''normal''"
    using assms(2) by (simp add: resolved_role_def GetAddressType_range)
  from d r prepare_ok(2) [OF assms(1)] show ?thesis
    by (simp add: TransitionDb_unfold [OF assms(1)])
qed

subsection \<open>Reaching the dispatch\<close>

lemma preCheck_passes:
  assumes "CheckNonce (msg st) \<Longrightarrow> Nonce (msg st) = GetNonce (state st) (From (msg st))"
    and "\<bar>Gas (msg st)\<bar> < 2 ^ 64"
    and "Gas (msg st) * gasPrice st \<le> GetBalance (state st) (From (msg st))"
    and "Gas (msg st) \<le> gp st"
  shows "fst (preCheck st) = None"
proof -
  from assms(2) have b: "\<not> 64 < BitLen (Gas (msg st))" by (simp only: BitLen_le_64)
  with assms(3,4) have "fst (buyGas (snd (from' st))) = None"
    by (simp add: buyGas_def SubGas_def Let_def split_beta)
  with assms(1) show ?thesis
    by (auto simp: preCheck_def Let_def split_beta)
qed

lemma prepare_passes:
  assumes "fst (preCheck st) = None"
    and "\<bar>intrinsic_of P st\<bar> < 2 ^ 64"
    and "\<not> gas st + Uint64 (Gas (msg st)) < Uint64 (intrinsic_of P st)"
  shows "fst (prepare P st) = Inr (From (msg st), resolved_role st)"
proof -
  note u = prepare_unfold [OF assms(1), of P, folded resolved_role_def, unfolded Let_def,
      folded intrinsic_of_def]
  from assms(2) have "\<not> 64 < BitLen (intrinsic_of P st)" by (simp only: BitLen_le_64)
  with assms(3) show ?thesis
    by (simp add: u preCheck_ok [OF assms(1)])
qed

subsection \<open>The sample chain\<close>

lemma sample_st_fields [simp]:
  "msg (sample_st m k) = m" "gas (sample_st m k) = 0" "gp (sample_st m k) = 8000000"
  "state (sample_st m k) = sample_state" "evm (sample_st m k) = sample_evm"
  "txType (sample_st m k) = k" "data (sample_st m k) = Data m"
  "gasPrice (sample_st m k) = GasPrice m" "value' (sample_st m k) = Value m"
  "initialGas (sample_st m k) = 0" "ValidatorS (sample_st m k) = Some [miner]"
  "txHash (sample_st m k) = [0xAA]"
  by (simp_all add: sample_st_def NewStateTransition_def)

lemma sample_msg_fields [simp]:
  "From (sample_msg to g price v n d) = alice" "To (sample_msg to g price v n d) = to"
  "GasPrice (sample_msg to g price v n d) = price" "Gas (sample_msg to g price v n d) = g"
  "Value (sample_msg to g price v n d) = v" "Nonce (sample_msg to g price v n d) = n"
  "CheckNonce (sample_msg to g price v n d) = True" "Data (sample_msg to g price v n d) = d"
  by (simp_all add: sample_msg_def)

lemma sample_type_slots:
  "GetState sample_state bob (go_bytes ''type'' @ replicate 28 0) = replicate 32 0"
  "GetState sample_state ctr (go_bytes ''type'' @ replicate 28 0) = go_bytes ''contract'' @ replicate 24 0"
  "GetState sample_state tmpl (go_bytes ''type'' @ replicate 28 0) = go_bytes ''template'' @ replicate 24 0"
  by (simp_all add: GetState_def getAccount_def sample_state_def sample_slot_def go_bytes_def
        empty_account_def alice_def bob_def carol_def tmpl_def ctr_def)

lemma GetAddressType_zero_hash: "GetAddressType (replicate 32 0) = ''normal''"
  by (simp add: GetAddressType_def go_bytes_def string_of_byte_def upt_rec)

lemma sample_roles:
  "resolved_role (sample_st (sample_msg (Some bob) g price v n d) k) = ''normal''"
  "resolved_role (sample_st (sample_msg (Some ctr) g price v n d) k) = ''contract''"
  "resolved_role (sample_st (sample_msg (Some tmpl) g price v n d) k) = ''template''"
  by (simp_all only: resolved_role_def sample_st_fields sample_msg_fields option.case
        sample_type_slots)
     (simp_all add: GetAddressType_zero_hash GetAddressType_take8 go_bytes_def)

lemma sample_preCheck:
  "fst (preCheck (sample_st (sample_msg to 100000 1 v 7 d) k)) = None"
  by (rule preCheck_passes) (simp_all add: sample_nonce sample_balance)

lemma sample_intrinsic:
  "intrinsic_of sample_params (sample_st (sample_msg (Some bob) g price v n None) k) = 21000"
  "intrinsic_of sample_params (sample_st (sample_msg (Some ctr) g price v n None) k) = 21000"
  "intrinsic_of sample_params (sample_st (sample_msg (Some tmpl) g price v n None) k) = 53000"
  by (simp_all add: intrinsic_of_def sample_roles IntrinsicGas_def len_def sample_params_def
        sample_evm_def)

lemma sample_prepare:
  "fst (prepare sample_params (sample_st (sample_msg (Some bob) 100000 1 v 7 None) k)) = Inr (alice, ''normal'')"
  "fst (prepare sample_params (sample_st (sample_msg (Some ctr) 100000 1 v 7 None) k)) = Inr (alice, ''contract'')"
  "fst (prepare sample_params (sample_st (sample_msg (Some tmpl) 100000 1 v 7 None) k)) = Inr (alice, ''template'')"
  using prepare_passes [OF sample_preCheck, of sample_params "Some bob" v None k]
    prepare_passes [OF sample_preCheck, of sample_params "Some ctr" v None k]
    prepare_passes [OF sample_preCheck, of sample_params "Some tmpl" v None k]
  by (simp_all add: sample_intrinsic sample_roles Uint64_def)

theorem unlisted_role_kind_is_invalid_type_witness:
  "fst (TransitionDb sample_params (sample_st (sample_msg (Some bob) 100000 1 0 7 None) SourceCode))
     = Inl ErrInvalidType
   \<and> fst (TransitionDb sample_params (sample_st (sample_msg (Some ctr) 100000 1 0 7 None) Delegate))
     = Inl ErrInvalidType
   \<and> fst (TransitionDb sample_params (sample_st (sample_msg (Some tmpl) 100000 1 0 7 None) LoginCandidate))
     = Inl ErrInvalidType"
  using unlisted_role_kind_is_invalid_type [OF sample_prepare(1), of 0 SourceCode bob]
    unlisted_role_kind_is_invalid_type [OF sample_prepare(2), of 0 Delegate ctr]
    unlisted_role_kind_is_invalid_type [OF sample_prepare(3), of 0 LoginCandidate tmpl]
  by simp

subsection \<open>Template deployment\<close>

text \<open>Claim C6. When the transition reaches the dispatch with a recipient whose resolved
  role is template and the kind is Binary: the init code is the recipient's code,
  followed by the payload if and only if the payload is not empty, by the first 20 bytes
  of the recipient's "coinbase" slot and by the recipient's own 20-byte address; the
  creation primitive runs on that init code, with the gas left and the value, and the
  transition goes on from its result. The sender's nonce is not incremented: the state
  handed to the creation primitive holds the nonce the transition started with.\<close>

theorem template_binary_creates_from_code:
  assumes "fst (prepare P st) = Inr (sender, ''template'')"
    and "To (msg st) = Some to"
    and "txType st = Binary"
    and "length to = 20"
    and "length (GetState (state st) to (go_bytes ''coinbase'' @ replicate 24 0)) = 32"
  shows "(case Create (evm st) (state (snd (prepare P st))) (From (msg st))
                 (GetCode (state st) to
                    @ (if 0 < len (data st) then elems (data st) else [])
                    @ take 20 (GetState (state st) to (go_bytes ''coinbase'' @ replicate 24 0))
                    @ to)
                 (gas (snd (prepare P st))) (value' st) of
            (ret, g, vmerr, s) \<Rightarrow>
              TransitionDb P st =
                finish ''template'' ret vmerr ((snd (prepare P st))\<lparr>gas := g, state := s\<rparr>))
         \<and> GetNonce (state (snd (prepare P st))) (From (msg st)) = GetNonce (state st) (From (msg st))"
proof -
  let ?st1 = "snd (prepare P st)"
  let ?code = "GetCode (state st) to
                 @ (if 0 < len (data st) then elems (data st) else [])
                 @ take 20 (GetState (state st) to (go_bytes ''coinbase'' @ replicate 24 0))
                 @ to"
  have s: "sender = From (msg st)" by (rule prepare_ok(1) [OF assms(1)])
  have d: "dispatch sender ''template'' ?st1 =
             assignResult (Create (evm st) (state ?st1) (From (msg st)) ?code (gas ?st1) (value' st)) ?st1"
    using assms(2-5)
    by (simp add: dispatch_def s HashTypeString_coinbase Let_def ByteAndByte_append
          byteAppend_take byteAppendAddress_take)
  show ?thesis
    by (simp add: TransitionDb_unfold [OF assms(1)] d assignResult_def split_beta)
qed

lemma sample_coinbase_slots:
  "GetState sample_state tmpl (go_bytes ''coinbase'' @ replicate 24 0) = carol @ replicate 12 0"
  "GetState sample_state ctr (go_bytes ''coinbase'' @ replicate 24 0) = carol @ replicate 12 0"
  by (simp_all add: GetState_def getAccount_def sample_state_def sample_slot_def go_bytes_def
        empty_account_def alice_def bob_def carol_def tmpl_def ctr_def)

lemma sample_code: "GetCode sample_state tmpl = [0x60, 0x01]"
  by (simp add: GetCode_def getAccount_def sample_state_def alice_def carol_def tmpl_def ctr_def)

theorem template_binary_creates_from_code_witness:
  "fst (prepare sample_params (sample_st (sample_msg (Some tmpl) 100000 1 0 7 (Some [9, 9])) Binary))
     = Inr (alice, ''template'')
   \<and> TransitionDb sample_params (sample_st (sample_msg (Some tmpl) 100000 1 0 7 (Some [9, 9])) Binary)
     = finish ''template'' ([0x60, 0x01, 9, 9] @ carol @ tmpl) None
         (snd (prepare sample_params (sample_st (sample_msg (Some tmpl) 100000 1 0 7 (Some [9, 9])) Binary)))"
proof -
  let ?st = "sample_st (sample_msg (Some tmpl) 100000 1 0 7 (Some [9, 9])) Binary"
  have i: "intrinsic_of sample_params ?st = 53136"
    by (simp add: intrinsic_of_def sample_roles IntrinsicGas_def len_def elems_def
          sample_params_def sample_evm_def)
  have p: "fst (prepare sample_params ?st) = Inr (alice, ''template'')"
    using prepare_passes [OF sample_preCheck, of sample_params "Some tmpl" 0 "Some [9, 9]" Binary]
    by (simp add: i sample_roles Uint64_def)
  have l: "length (GetState (state ?st) tmpl (go_bytes ''coinbase'' @ replicate 24 0)) = 32"
    by (simp add: sample_coinbase_slots carol_def)
  have c: "take 20 (carol @ replicate 12 0) = carol" by (simp add: carol_def)
  from template_binary_creates_from_code [OF p _ _ _ l] p show ?thesis
    by (simp add: sample_coinbase_slots sample_code sample_evm_def len_def elems_def c)
       (simp add: tmpl_def carol_def)
qed

subsection \<open>Insufficient balance in the execution\<close>

text \<open>Claim C9. When the transition reaches the dispatch and the execution backend
  returns \<open>ErrInsufficientBalance\<close>, \<open>TransitionDb\<close> returns that error and the transition
  is left as it is right after the execution: nothing is credited back to the sender, no
  gas goes back to the pool and no reward is paid. The pool stays reduced by the gas
  bought, and the state that went into the execution holds the sender's balance reduced
  by gas limit times gas price.\<close>

theorem insufficient_balance_returns_at_once:
  assumes "fst (prepare P st) = Inr (sender, aty)"
    and "fst (dispatch sender aty (snd (prepare P st))) = Inr (ret, Some ErrInsufficientBalance)"
  shows "TransitionDb P st =
           (Inl ErrInsufficientBalance, snd (dispatch sender aty (snd (prepare P st))))
         \<and> gp (snd (TransitionDb P st)) = gp st - Gas (msg st)
         \<and> GetBalance (state (snd (prepare P st))) (From (msg st)) =
             GetBalance (state st) (From (msg st)) - Gas (msg st) * gasPrice st"
proof -
  have t: "TransitionDb P st =
             (Inl ErrInsufficientBalance, snd (dispatch sender aty (snd (prepare P st))))"
    by (simp add: TransitionDb_unfold [OF assms(1)] split_beta assms(2) finish_def)
  show ?thesis
    by (simp add: t prepare_ok(3,6) [OF assms(1)])
qed

lemma GetBalance_SetNonce [simp]: "GetBalance (SetNonce s a n) b = GetBalance s b"
  by (simp add: GetBalance_def SetNonce_def getAccount_def)

theorem insufficient_balance_returns_at_once_witness:
  "fst (TransitionDb sample_params (sample_st (sample_msg (Some bob) 100000 1 950000 7 None) Binary))
     = Inl ErrInsufficientBalance
   \<and> gp (snd (TransitionDb sample_params
        (sample_st (sample_msg (Some bob) 100000 1 950000 7 None) Binary))) = 7900000"
proof -
  let ?st = "sample_st (sample_msg (Some bob) 100000 1 950000 7 None) Binary"
  note p = sample_prepare(1) [of 950000 Binary]
  have d: "fst (dispatch alice ''normal'' (snd (prepare sample_params ?st)))
             = Inr ([], Some ErrInsufficientBalance)"
    by (simp add: dispatch_def assignResult_def incrementNonce_def sample_evm_def sample_call_def
          prepare_ok(6) [OF p] sample_balance)
  from insufficient_balance_returns_at_once [OF p d] show ?thesis
    by (simp add: prepare_ok(3) [OF p])
qed

subsection \<open>Gas bookkeeping up to the dispatch\<close>

lemma count_nonzero_fold:
  "fold (\<lambda>byt nz. if byt \<noteq> 0 then nz + 1 else nz) xs (n :: int)
     = n + int (length (filter (\<lambda>b. b \<noteq> 0) xs))"
  by (induction xs arbitrary: n) simp_all

lemma IntrinsicGas_nonneg: "0 \<le> IntrinsicGas P d cc h"
proof -
  let ?nz = "int (length (filter (\<lambda>b. b \<noteq> 0) (elems d)))"
  have "length (filter (\<lambda>b. b \<noteq> 0) (elems d)) \<le> length (elems d)" by (rule length_filter_le)
  also have "length (elems d) = len d" by (simp add: len_def elems_def split: option.splits)
  finally have "0 \<le> int (len d) - ?nz" by simp
  then have "0 \<le> (int (len d) - ?nz) * uint (TxDataZeroGas P)" by simp
  moreover have "0 \<le> ?nz * uint (TxDataNonZeroGas P)" by simp
  ultimately show ?thesis
    by (simp add: IntrinsicGas_def Let_def count_nonzero_fold)
qed

lemma uint_sub_no_wrap: "\<not> a < b \<Longrightarrow> uint (a - b) = uint a - uint (b :: uint64)"
  by (simp add: uint_sub_lem [symmetric] word_less_def)

lemma prepare_gas:
  assumes "fst (prepare P st) = Inr (sender, aty)" and "gas st = 0" and "0 \<le> Gas (msg st)"
  shows "uint (gas (snd (prepare P st))) = Gas (msg st) - intrinsic_of P st"
    and "gasUsed (snd (prepare P st)) = intrinsic_of P st"
    and "0 \<le> intrinsic_of P st"
    and "intrinsic_of P st \<le> Gas (msg st)"
    and "Gas (msg st) < 2 ^ 64"
proof -
  note ok = prepare_ok [OF assms(1)]
  show i0: "0 \<le> intrinsic_of P st" by (simp add: intrinsic_of_def IntrinsicGas_nonneg)
  from ok(5) assms(3) show g: "Gas (msg st) < 2 ^ 64" by simp
  from ok(9) i0 have i: "intrinsic_of P st < 2 ^ 64" by simp
  have ug: "uint (Uint64 (Gas (msg st))) = Gas (msg st)"
    using assms(3) g by (rule uint_Uint64)
  have ui: "uint (Uint64 (intrinsic_of P st)) = intrinsic_of P st"
    using i0 i by (rule uint_Uint64)
  from ok(8) assms(2) have n: "\<not> Uint64 (Gas (msg st)) < Uint64 (intrinsic_of P st)" by simp
  from ok(7) assms(2) have "gas (snd (prepare P st)) = Uint64 (Gas (msg st)) - Uint64 (intrinsic_of P st)"
    by simp
  then show u: "uint (gas (snd (prepare P st))) = Gas (msg st) - intrinsic_of P st"
    by (simp add: uint_sub_no_wrap [OF n] ug ui)
  then show "gasUsed (snd (prepare P st)) = intrinsic_of P st"
    by (simp add: gasUsed_def ok(4))
  from n show "intrinsic_of P st \<le> Gas (msg st)"
    by (simp add: word_less_def ug ui)
qed

subsection \<open>Refund, reward and result\<close>

lemma refundGas_fields [simp]:
  "initialGas (refundGas st) = initialGas st" "gasPrice (refundGas st) = gasPrice st"
  "msg (refundGas st) = msg st" "evm (refundGas st) = evm st"
  by (simp_all add: refundGas_unfold Let_def)

lemma refundGas_storage [simp]: "GetState (state (refundGas st)) b k = GetState (state st) b k"
  by (simp add: refundGas_unfold Let_def)

lemma refundGas_gasUsed:
  assumes "0 \<le> GetRefund (state st)" and "uint (gas st) \<le> initialGas st"
    and "initialGas st < 2 ^ 64"
  shows "gasUsed (refundGas st) = gasUsed st - min (GetRefund (state st)) (gasUsed st div 2)"
proof -
  let ?r = "min (gasUsed st div 2) (GetRefund (state st))"
  have u: "0 \<le> gasUsed st" using assms(2) by (simp add: gasUsed_def)
  then have r0: "0 \<le> ?r" using assms(1) by simp
  have "?r \<le> gasUsed st div 2" by simp
  also have "\<dots> \<le> gasUsed st" using u by simp
  finally have "uint (gas st) + ?r \<le> initialGas st" by (simp add: gasUsed_def)
  with assms(3) have "uint (gas st) + ?r < 2 ^ 64" by linarith
  with r0 have "uint (gas st + Uint64 ?r) = uint (gas st) + ?r"
    by (rule uint_add_Uint64)
  then show ?thesis
    by (simp add: refundGas_unfold Let_def gasUsed_def min.commute)
qed

lemma finish_unfold:
  assumes "vmerr \<noteq> Some ErrInsufficientBalance"
  shows "finish aty ret vmerr st =
           (case fst (reward aty (refundGas st)) of
              Some err \<Rightarrow> (Inl err, snd (reward aty (refundGas st)))
            | None \<Rightarrow> (Inr (ret, gasUsed st, gasUsed (snd (reward aty (refundGas st))), vmerr \<noteq> None),
                        snd (reward aty (refundGas st))))"
  using assms by (simp add: finish_def Let_def split_beta split: option.splits)

lemma reward_split:
  assumes "0 \<le> gasUsed st" and "gasUsed st < 2 ^ 64"
  shows "To (msg st) = Some to \<Longrightarrow>
           reward ''contract'' st =
             (None, st\<lparr>state :=
                AddBalance
                  (AddBalance (state st) (Coinbase (evm st))
                     ((gasUsed st - gasUsed st div 10) * gasPrice st))
                  (CommonHash2Address (GetState (state st) to (go_bytes ''coinbase'' @ replicate 24 0)))
                  (gasUsed st div 10 * gasPrice st)\<rparr>)"
    and "aty \<noteq> ''contract'' \<Longrightarrow>
           reward aty st =
             (None, st\<lparr>state := AddBalance (state st) (Coinbase (evm st)) (gasUsed st * gasPrice st)\<rparr>)"
proof -
  have u: "uint (Uint64 (gasUsed st)) = gasUsed st"
    using assms by (rule uint_Uint64)
  have d: "uint (Uint64 (gasUsed st) div 10) = gasUsed st div 10"
    by (simp add: uint_div u)
  have "\<not> Uint64 (gasUsed st) < Uint64 (gasUsed st) div 10"
    using assms(1) by (simp add: word_less_def d u)
  then have m: "uint (Uint64 (gasUsed st) - Uint64 (gasUsed st) div 10) = gasUsed st - gasUsed st div 10"
    by (simp add: uint_sub_no_wrap d u)
  show "To (msg st) = Some to \<Longrightarrow>
           reward ''contract'' st =
             (None, st\<lparr>state :=
                AddBalance
                  (AddBalance (state st) (Coinbase (evm st))
                     ((gasUsed st - gasUsed st div 10) * gasPrice st))
                  (CommonHash2Address (GetState (state st) to (go_bytes ''coinbase'' @ replicate 24 0)))
                  (gasUsed st div 10 * gasPrice st)\<rparr>)"
    by (simp add: reward_def Layer_def Let_def HashTypeString_coinbase m d)
  show "aty \<noteq> ''contract'' \<Longrightarrow>
           reward aty st =
             (None, st\<lparr>state := AddBalance (state st) (Coinbase (evm st)) (gasUsed st * gasPrice st)\<rparr>)"
    by (simp add: reward_def u)
qed

lemma executed_facts:
  assumes "prepare P st = (Inr (sender, aty), st1)"
    and "dispatch sender aty st1 = (Inr (ret, vmerr), st2)"
    and "gas st = 0" and "0 \<le> Gas (msg st)"
    and "gas st2 \<le> gas st1"
  shows "TransitionDb P st = finish aty ret vmerr st2"
    and "initialGas st2 = Gas (msg st)"
    and "uint (gas st2) \<le> initialGas st2"
    and "initialGas st2 < 2 ^ 64"
    and "intrinsic_of P st \<le> gasUsed st2"
    and "evm st2 = evm st" and "gasPrice st2 = gasPrice st" and "msg st2 = msg st"
    and "aty = resolved_role st"
proof -
  from assms(1) have p: "fst (prepare P st) = Inr (sender, aty)" and s1: "st1 = snd (prepare P st)"
    by simp_all
  from assms(2) have s2: "st2 = snd (dispatch sender aty st1)" by simp
  show "TransitionDb P st = finish aty ret vmerr st2"
    by (simp add: TransitionDb_def assms(1,2))
  show i: "initialGas st2 = Gas (msg st)"
    by (simp add: s2 s1 prepare_ok(4) [OF p])
  from assms(5) have "uint (gas st2) \<le> uint (gas st1)" by (simp add: word_le_def)
  also have "\<dots> = Gas (msg st) - intrinsic_of P st"
    unfolding s1 by (rule prepare_gas(1) [OF p assms(3,4)])
  finally have g: "uint (gas st2) \<le> Gas (msg st) - intrinsic_of P st" .
  with prepare_gas(3) [OF p assms(3,4)] show "uint (gas st2) \<le> initialGas st2"
    by (simp add: i)
  from prepare_gas(5) [OF p assms(3,4)] show "initialGas st2 < 2 ^ 64" by (simp add: i)
  from g show "intrinsic_of P st \<le> gasUsed st2" by (simp add: gasUsed_def i)
  show "evm st2 = evm st" and "gasPrice st2 = gasPrice st" and "msg st2 = msg st"
    by (simp_all add: s2 s1)
  show "aty = resolved_role st" by (rule prepare_ok(2) [OF p])
qed

lemma contract_has_recipient: "resolved_role st = ''contract'' \<Longrightarrow> \<exists>to. To (msg st) = Some to"
  by (cases "To (msg st)") (simp_all add: resolved_role_def)

subsection \<open>Reward split\<close>

text \<open>Claim C3. A transition that gets through the dispatch without a fatal error (a fresh
  transition object, a gas limit that is not negative, a backend that returns no more gas
  than it was given, a refund counter that is not negative) ends with the reward: if and
  only if the resolved role is contract, the address read from the recipient's "coinbase"
  slot is credited \<open>gasUsed div 10 * gasPrice\<close> and the block's \<open>Coinbase\<close> is credited
  \<open>(gasUsed - gasUsed div 10) * gasPrice\<close>; for every other role the \<open>Coinbase\<close> is
  credited the whole \<open>gasUsed * gasPrice\<close>. \<open>gasUsed\<close> is the value returned, taken after
  the refund. With \<open>gasUsed = 100\<close> and \<open>gasPrice = 5\<close> the credits are 50 and 450 for a
  contract and 500 otherwise.\<close>

theorem reward_split_by_role:
  assumes "prepare P st = (Inr (sender, aty), st1)"
    and "dispatch sender aty st1 = (Inr (ret, vmerr), st2)"
    and "vmerr \<noteq> Some ErrInsufficientBalance"
    and "gas st = 0" and "0 \<le> Gas (msg st)"
    and "gas st2 \<le> gas st1"
    and "0 \<le> GetRefund (state st2)"
    and "st3 = refundGas st2"
  shows "(aty = ''contract'' \<longrightarrow>
            (\<exists>to. To (msg st) = Some to \<and>
               TransitionDb P st =
                 (Inr (ret, gasUsed st2, gasUsed st3, vmerr \<noteq> None),
                  st3\<lparr>state :=
                    AddBalance
                      (AddBalance (state st3) (Coinbase (evm st))
                         ((gasUsed st3 - gasUsed st3 div 10) * gasPrice st))
                      (CommonHash2Address (GetState (state st3) to (go_bytes ''coinbase'' @ replicate 24 0)))
                      (gasUsed st3 div 10 * gasPrice st)\<rparr>)))
         \<and> (aty \<noteq> ''contract'' \<longrightarrow>
               TransitionDb P st =
                 (Inr (ret, gasUsed st2, gasUsed st3, vmerr \<noteq> None),
                  st3\<lparr>state := AddBalance (state st3) (Coinbase (evm st)) (gasUsed st3 * gasPrice st)\<rparr>))"
proof -
  note e = executed_facts [OF assms(1,2,4,5,6)]
  have u: "gasUsed st3 = gasUsed st2 - min (GetRefund (state st2)) (gasUsed st2 div 2)"
    unfolding assms(8) using assms(7) e(3,4) by (rule refundGas_gasUsed)
  have u2: "0 \<le> gasUsed st2" using e(3) by (simp add: gasUsed_def)
  have "gasUsed st2 \<le> initialGas st2" by (simp add: gasUsed_def)
  with e(4) have u3: "gasUsed st2 < 2 ^ 64" by linarith
  have "min (GetRefund (state st2)) (gasUsed st2 div 2) \<le> gasUsed st2 div 2" by simp
  also have "\<dots> \<le> gasUsed st2" using u2 by simp
  finally have lo: "0 \<le> gasUsed st3" by (simp add: u)
  have "0 \<le> min (GetRefund (state st2)) (gasUsed st2 div 2)" using assms(7) u2 by simp
  with u3 have hi: "gasUsed st3 < 2 ^ 64" unfolding u by linarith
  have f: "evm st3 = evm st" "gasPrice st3 = gasPrice st" "msg st3 = msg st"
    by (simp_all add: assms(8) e(6,7,8))
  note r = reward_split [OF lo hi, unfolded f]
  show ?thesis
  proof (intro conjI impI)
    assume c: "aty = ''contract''"
    with e(9) contract_has_recipient obtain to where t: "To (msg st) = Some to" by metis
    have "TransitionDb P st =
            (Inr (ret, gasUsed st2, gasUsed st3, vmerr \<noteq> None),
             st3\<lparr>state :=
               AddBalance
                 (AddBalance (state st3) (Coinbase (evm st))
                    ((gasUsed st3 - gasUsed st3 div 10) * gasPrice st))
                 (CommonHash2Address (GetState (state st3) to (go_bytes ''coinbase'' @ replicate 24 0)))
                 (gasUsed st3 div 10 * gasPrice st)\<rparr>)"
      by (simp add: e(1) c finish_unfold [OF assms(3)] assms(8) [symmetric] r(1) [OF t] gasUsed_def)
    with t show "\<exists>to. To (msg st) = Some to \<and>
               TransitionDb P st =
                 (Inr (ret, gasUsed st2, gasUsed st3, vmerr \<noteq> None),
                  st3\<lparr>state :=
                    AddBalance
                      (AddBalance (state st3) (Coinbase (evm st))
                         ((gasUsed st3 - gasUsed st3 div 10) * gasPrice st))
                      (CommonHash2Address (GetState (state st3) to (go_bytes ''coinbase'' @ replicate 24 0)))
                      (gasUsed st3 div 10 * gasPrice st)\<rparr>)"
      by blast
  next
    assume c: "aty \<noteq> ''contract''"
    show "TransitionDb P st =
            (Inr (ret, gasUsed st2, gasUsed st3, vmerr \<noteq> None),
             st3\<lparr>state := AddBalance (state st3) (Coinbase (evm st)) (gasUsed st3 * gasPrice st)\<rparr>)"
      by (simp add: e(1) finish_unfold [OF assms(3)] assms(8) [symmetric] r(2) [OF c] gasUsed_def)
  qed
qed

lemma GetRefund_SetNonce [simp]: "GetRefund (SetNonce s a n) = GetRefund s"
  by (simp add: GetRefund_def SetNonce_def)

lemma GetState_SetNonce [simp]: "GetState (SetNonce s a n) b k = GetState s b k"
  by (simp add: GetState_def SetNonce_def getAccount_def)

lemma refundGas_balance:
  "GetBalance (state (refundGas st)) a =
     (if a = From (msg st)
      then GetBalance (state st) a + uint (gas st) * gasPrice st
             + min (gasUsed st div 2) (GetRefund (state st)) * gasPrice st
      else GetBalance (state st) a)"
  by (simp add: refundGas_unfold Let_def)

lemma sample_endorse:
  assumes "to = bob \<and> role = ''normal'' \<or> to = ctr \<and> role = ''contract''"
  defines "st \<equiv> sample_st (sample_msg (Some to) 1000 5 0 7 None) Endorse"
  defines "st1 \<equiv> snd (prepare small_params st)"
  defines "st2 \<equiv> snd (dispatch alice role st1)"
  shows "prepare small_params st = (Inr (alice, role), st1)"
    and "dispatch alice role st1 = (Inr ([], None), st2)"
    and "gas st2 \<le> gas st1"
    and "GetRefund (state st2) = 0"
    and "gasUsed st2 = 100"
    and "GetBalance (state st2) carol = 500"
    and "GetBalance (state st2) miner = 0"
    and "GetState (state st2) to (go_bytes ''coinbase'' @ replicate 24 0) =
           GetState sample_state to (go_bytes ''coinbase'' @ replicate 24 0)"
proof -
  have r: "resolved_role st = role"
    using assms(1) by (auto simp: st_def sample_roles)
  have i: "intrinsic_of small_params st = 100"
    using assms(1) r
    by (auto simp: intrinsic_of_def IntrinsicGas_def len_def small_params_def st_def)
  have pc: "fst (preCheck st) = None"
    unfolding st_def by (rule preCheck_passes) (simp_all add: sample_nonce sample_balance)
  have p: "fst (prepare small_params st) = Inr (alice, role)"
    using prepare_passes [OF pc, of small_params] by (simp add: i r) (simp add: st_def Uint64_def)
  then show p': "prepare small_params st = (Inr (alice, role), st1)"
    by (simp add: st1_def prod_eq_iff)
  have f: "To (msg st1) = Some to" "txType st1 = Endorse" "evm st1 = sample_evm" "data st1 = None"
    by (simp_all add: st1_def) (simp_all add: st_def)
  have d: "dispatch alice role st1 =
             (Inr ([], None), (incrementNonce alice st1)\<lparr>gas := gas st1, state := state (incrementNonce alice st1)\<rparr>)"
    using assms(1) by (auto simp: dispatch_def f Let_def assignResult_def sample_evm_def elems_def)
  then show "dispatch alice role st1 = (Inr ([], None), st2)"
    by (simp add: st2_def)
  from d have s2: "st2 = (incrementNonce alice st1)\<lparr>gas := gas st1, state := state (incrementNonce alice st1)\<rparr>"
    by (simp add: st2_def)
  show "gas st2 \<le> gas st1" by (simp add: s2)
  have z: "GetRefund sample_state = 0" by (simp add: GetRefund_def sample_state_def)
  show "GetRefund (state st2) = 0"
    by (simp add: s2 incrementNonce_def st1_def) (simp add: st_def z)
  have g: "gas st = 0" "0 \<le> Gas (msg st)" by (simp_all add: st_def)
  have "gasUsed st2 = gasUsed st1" by (simp add: s2 gasUsed_def)
  also have "\<dots> = 100" unfolding st1_def using prepare_gas(2) [OF p g] i by simp
  finally show "gasUsed st2 = 100" .
  have ne: "carol \<noteq> alice" "miner \<noteq> alice" by (simp_all add: carol_def alice_def miner_def)
  have b: "GetBalance sample_state carol = 500" "GetBalance sample_state miner = 0"
    by (simp_all add: GetBalance_def getAccount_def sample_state_def empty_account_def
          alice_def carol_def tmpl_def ctr_def miner_def)
  have m: "From (msg st) = alice" "state st = sample_state" by (simp_all add: st_def)
  show "GetBalance (state st2) carol = 500" "GetBalance (state st2) miner = 0"
    by (simp_all add: s2 incrementNonce_def st1_def prepare_ok(6) [OF p] m ne b)
  show "GetState (state st2) to (go_bytes ''coinbase'' @ replicate 24 0) =
           GetState sample_state to (go_bytes ''coinbase'' @ replicate 24 0)"
    by (simp add: s2 incrementNonce_def st1_def m)
qed

theorem reward_split_by_role_witness:
  "fst (TransitionDb small_params (sample_st (sample_msg (Some ctr) 1000 5 0 7 None) Endorse))
     = Inr ([], 100, 100, False)
   \<and> GetBalance (state (snd (TransitionDb small_params
         (sample_st (sample_msg (Some ctr) 1000 5 0 7 None) Endorse)))) carol = 500 + 50
   \<and> GetBalance (state (snd (TransitionDb small_params
         (sample_st (sample_msg (Some ctr) 1000 5 0 7 None) Endorse)))) miner = 450
   \<and> fst (TransitionDb small_params (sample_st (sample_msg (Some bob) 1000 5 0 7 None) Endorse))
     = Inr ([], 100, 100, False)
   \<and> GetBalance (state (snd (TransitionDb small_params
         (sample_st (sample_msg (Some bob) 1000 5 0 7 None) Endorse)))) miner = 500"
proof -
  have ne: "carol \<noteq> alice" "miner \<noteq> alice" "miner \<noteq> carol" "carol \<noteq> miner"
    by (simp_all add: carol_def alice_def miner_def)
  have k: "CommonHash2Address (carol @ replicate 12 0) = carol"
    by (simp add: CommonHash2Address_take carol_def)
  have run: "gasUsed (refundGas st2) = 100
      \<and> GetBalance (state (refundGas st2)) carol = 500
      \<and> GetBalance (state (refundGas st2)) miner = 0
      \<and> GetState (state (refundGas st2)) to (go_bytes ''coinbase'' @ replicate 24 0)
          = GetState sample_state to (go_bytes ''coinbase'' @ replicate 24 0)"
    if "to = bob \<and> role = ''normal'' \<or> to = ctr \<and> role = ''contract''"
      and "st = sample_st (sample_msg (Some to) 1000 5 0 7 None) Endorse"
      and "st1 = snd (prepare small_params st)"
      and "st2 = snd (dispatch alice role st1)"
    for to role st st1 st2
  proof -
    note s = sample_endorse [OF that(1), folded that(2), folded that(3), folded that(4)]
    have g: "gas st = 0" "0 \<le> Gas (msg st)" "From (msg st) = alice"
      by (simp_all add: that(2))
    note e = executed_facts [OF s(1,2) g(1,2) s(3)]
    have "gasUsed (refundGas st2) = gasUsed st2 - min (GetRefund (state st2)) (gasUsed st2 div 2)"
      using e(3,4) by (intro refundGas_gasUsed) (simp_all add: s(4))
    then show ?thesis
      by (simp add: s(4,5,6,7,8) refundGas_balance e(8) g(3) ne)
  qed
  let ?c = "sample_st (sample_msg (Some ctr) 1000 5 0 7 None) Endorse"
  let ?c1 = "snd (prepare small_params ?c)"
  let ?c2 = "snd (dispatch alice ''contract'' ?c1)"
  let ?b = "sample_st (sample_msg (Some bob) 1000 5 0 7 None) Endorse"
  let ?b1 = "snd (prepare small_params ?b)"
  let ?b2 = "snd (dispatch alice ''normal'' ?b1)"
  note c = sample_endorse [of ctr "''contract''", simplified]
  note b = sample_endorse [of bob "''normal''", simplified]
  note rc = run [of ctr "''contract''" ?c ?c1 ?c2, simplified]
  note rb = run [of bob "''normal''" ?b ?b1 ?b2, simplified]
  have "TransitionDb small_params ?c =
          (Inr ([], gasUsed ?c2, gasUsed (refundGas ?c2), False),
           (refundGas ?c2)\<lparr>state :=
              AddBalance
                (AddBalance (state (refundGas ?c2)) (Coinbase (evm ?c))
                   ((gasUsed (refundGas ?c2) - gasUsed (refundGas ?c2) div 10) * gasPrice ?c))
                (CommonHash2Address (GetState (state (refundGas ?c2)) ctr (go_bytes ''coinbase'' @ replicate 24 0)))
                (gasUsed (refundGas ?c2) div 10 * gasPrice ?c)\<rparr>)"
    using reward_split_by_role [OF c(1) c(2) _ _ _ c(3) _ refl] c(4)
    by simp
  moreover have "TransitionDb small_params ?b =
          (Inr ([], gasUsed ?b2, gasUsed (refundGas ?b2), False),
           (refundGas ?b2)\<lparr>state :=
              AddBalance (state (refundGas ?b2)) (Coinbase (evm ?b))
                (gasUsed (refundGas ?b2) * gasPrice ?b)\<rparr>)"
    using reward_split_by_role [OF b(1) b(2) _ _ _ b(3) _ refl] b(4)
    by simp
  ultimately show ?thesis
    by (simp add: rc rb c(5) b(5) sample_coinbase_slots k sample_evm_def ne)
qed

subsection \<open>Gas used\<close>

lemma reward_frame [simp]:
  "initialGas (snd (reward aty st)) = initialGas st" "gas (snd (reward aty st)) = gas st"
  by (simp_all add: reward_def Layer_def Let_def HashTypeString_coinbase split: option.splits)

lemma reward_returns:
  "aty \<noteq> ''contract'' \<or> To (msg st) \<noteq> None \<Longrightarrow> fst (reward aty st) = None"
  by (auto simp: reward_def Layer_def Let_def HashTypeString_coinbase)

lemma settled_result:
  assumes "prepare P st = (Inr (sender, aty), st1)"
    and "dispatch sender aty st1 = (Inr (ret, vmerr), st2)"
    and "vmerr \<noteq> Some ErrInsufficientBalance"
    and "gas st = 0" and "0 \<le> Gas (msg st)"
    and "gas st2 \<le> gas st1"
    and "0 \<le> GetRefund (state st2)"
  shows "fst (TransitionDb P st) =
           Inr (ret, gasUsed st2, gasUsed (snd (TransitionDb P st)), vmerr \<noteq> None)"
    and "initialGas (snd (TransitionDb P st)) = Gas (msg st)"
    and "intrinsic_of P st \<le> gasUsed st2"
    and "gasUsed (snd (TransitionDb P st)) =
           gasUsed st2 - min (GetRefund (state st2)) (gasUsed st2 div 2)"
proof -
  note e = executed_facts [OF assms(1,2,4,5,6)]
  have "aty \<noteq> ''contract'' \<or> To (msg (refundGas st2)) \<noteq> None"
    using e(9) contract_has_recipient [of st] by (auto simp: e(8))
  then have n: "fst (reward aty (refundGas st2)) = None" by (rule reward_returns)
  have t: "TransitionDb P st =
             (Inr (ret, gasUsed st2, gasUsed (snd (reward aty (refundGas st2))), vmerr \<noteq> None),
              snd (reward aty (refundGas st2)))"
    by (simp add: e(1) finish_unfold [OF assms(3)] n)
  then show "fst (TransitionDb P st) =
           Inr (ret, gasUsed st2, gasUsed (snd (TransitionDb P st)), vmerr \<noteq> None)"
    by simp
  show "initialGas (snd (TransitionDb P st)) = Gas (msg st)"
    by (simp add: t e(2))
  show "intrinsic_of P st \<le> gasUsed st2" by (rule e(5))
  have "gasUsed (snd (TransitionDb P st)) = gasUsed (refundGas st2)"
    by (simp add: t gasUsed_def)
  also have "\<dots> = gasUsed st2 - min (GetRefund (state st2)) (gasUsed st2 div 2)"
    using assms(7) e(3,4) by (rule refundGas_gasUsed)
  finally show "gasUsed (snd (TransitionDb P st)) =
           gasUsed st2 - min (GetRefund (state st2)) (gasUsed st2 div 2)" .
qed

text \<open>Claim C4, as amended. For a transition that returns without a fatal error (a fresh
  transition object, a gas limit that is not negative, a backend that returns no more gas
  than it was given, a refund counter that is not negative): the gas used that
  \<open>TransitionDb\<close> returns is the initial gas bought minus the remaining gas, the refund
  included in the remaining gas. The gas required, which is the gas used before the
  refund, is at least the intrinsic gas; the gas used returned is the gas required minus
  the refund \<open>min (refund counter) (required div 2)\<close>, so it is at least the intrinsic gas
  when the refund counter is 0.\<close>

theorem gasUsed_is_initial_minus_remaining:
  assumes "prepare P st = (Inr (sender, aty), st1)"
    and "dispatch sender aty st1 = (Inr (ret, vmerr), st2)"
    and "vmerr \<noteq> Some ErrInsufficientBalance"
    and "gas st = 0" and "0 \<le> Gas (msg st)"
    and "gas st2 \<le> gas st1"
    and "0 \<le> GetRefund (state st2)"
  shows "fst (TransitionDb P st) =
           Inr (ret, gasUsed st2,
                initialGas (snd (TransitionDb P st)) - uint (gas (snd (TransitionDb P st))),
                vmerr \<noteq> None)
         \<and> initialGas (snd (TransitionDb P st)) = Gas (msg st)
         \<and> intrinsic_of P st \<le> gasUsed st2
         \<and> gasUsed (snd (TransitionDb P st)) =
             gasUsed st2 - min (GetRefund (state st2)) (gasUsed st2 div 2)
         \<and> (GetRefund (state st2) = 0 \<longrightarrow> intrinsic_of P st \<le> gasUsed (snd (TransitionDb P st)))"
proof -
  note r = settled_result [OF assms]
  from r(3,4) have "GetRefund (state st2) = 0 \<longrightarrow> intrinsic_of P st \<le> gasUsed (snd (TransitionDb P st))"
    using executed_facts(3) [OF assms(1,2,4,5,6)] by (auto simp: gasUsed_def)
  with r show ?thesis
    by (simp add: gasUsed_def)
qed

lemma sample_transfer:
  defines "st \<equiv> sample_st (sample_msg (Some bob) 100000 1 10 7 None) Binary"
  defines "st1 \<equiv> snd (prepare sample_params st)"
  defines "st2 \<equiv> snd (dispatch alice ''normal'' st1)"
  shows "prepare sample_params st = (Inr (alice, ''normal''), st1)"
    and "dispatch alice ''normal'' st1 = (Inr ([], None), st2)"
    and "gas st2 \<le> gas st1"
    and "GetRefund (state st2) = 15000"
    and "gasUsed st2 = 26000"
    and "intrinsic_of sample_params st = 21000"
proof -
  have p: "fst (prepare sample_params st) = Inr (alice, ''normal'')"
    unfolding st_def by (rule sample_prepare(1))
  then show "prepare sample_params st = (Inr (alice, ''normal''), st1)"
    by (simp add: st1_def prod_eq_iff)
  show i: "intrinsic_of sample_params st = 21000"
    unfolding st_def by (rule sample_intrinsic(1))
  have g: "gas st = 0" "0 \<le> Gas (msg st)" "Gas (msg st) = 100000" "gasPrice st = 1"
    "From (msg st) = alice" "state st = sample_state"
    by (simp_all add: st_def)
  have g1: "gas st1 = 79000"
    unfolding st1_def by (simp add: prepare_ok(7) [OF p] g i Uint64_def)
  have b1: "GetBalance (state st1) alice = 900000"
    unfolding st1_def by (simp add: prepare_ok(6) [OF p] g sample_balance)
  have f: "To (msg st1) = Some bob" "txType st1 = Binary" "evm st1 = sample_evm"
    "value' st1 = 10" "initialGas st1 = 100000"
    by (simp_all add: st1_def prepare_ok(4) [OF p]) (simp_all add: st_def)
  have d: "dispatch alice ''normal'' st1 =
             (Inr ([], None),
              (incrementNonce alice st1)
                \<lparr>gas := 74000,
                 state := (AddBalance (SubBalance (state (incrementNonce alice st1)) alice 10) bob 10)
                            \<lparr>refund := 15000\<rparr>\<rparr>)"
    by (simp add: dispatch_def f Let_def assignResult_def sample_evm_def sample_call_def
          incrementNonce_def b1 g1)
  then show "dispatch alice ''normal'' st1 = (Inr ([], None), st2)"
    by (simp add: st2_def)
  from d have s2: "gas st2 = 74000" "GetRefund (state st2) = 15000" "initialGas st2 = 100000"
    by (simp_all add: st2_def GetRefund_def f)
  show "gas st2 \<le> gas st1" by (simp add: s2 g1)
  show "GetRefund (state st2) = 15000" by (rule s2)
  show "gasUsed st2 = 26000" by (simp add: gasUsed_def s2)
qed

theorem gasUsed_is_initial_minus_remaining_witness:
  "fst (TransitionDb sample_params (sample_st (sample_msg (Some bob) 100000 1 10 7 None) Binary))
     = Inr ([], 26000, 13000, False)
   \<and> initialGas (snd (TransitionDb sample_params
        (sample_st (sample_msg (Some bob) 100000 1 10 7 None) Binary))) = 100000
   \<and> uint (gas (snd (TransitionDb sample_params
        (sample_st (sample_msg (Some bob) 100000 1 10 7 None) Binary)))) = 87000"
proof -
  let ?T = "TransitionDb sample_params (sample_st (sample_msg (Some bob) 100000 1 10 7 None) Binary)"
  note s = sample_transfer
  from gasUsed_is_initial_minus_remaining [OF s(1) s(2) _ _ _ s(3)]
  have a: "fst ?T = Inr ([], 26000, initialGas (snd ?T) - uint (gas (snd ?T)), False)"
    and b: "initialGas (snd ?T) = 100000"
    and c: "gasUsed (snd ?T) = 13000"
    by (simp_all add: s(4,5))
  from c have "initialGas (snd ?T) - uint (gas (snd ?T)) = 13000"
    by (simp add: gasUsed_def)
  with a b show ?thesis by simp
qed

text \<open>Claim C4 as it stands fails on a plain transfer: 21000 intrinsic gas are charged
  and the call burns 5000, but the refund of 13000 brings the gas used that
  \<open>TransitionDb\<close> returns down to 13000.\<close>

theorem gasUsed_below_intrinsic_counterexample:
  "fst (TransitionDb sample_params (sample_st (sample_msg (Some bob) 100000 1 10 7 None) Binary))
     = Inr ([], 26000, 13000, False)
   \<and> intrinsic_of sample_params (sample_st (sample_msg (Some bob) 100000 1 10 7 None) Binary) = 21000
   \<and> \<not> (case fst (TransitionDb sample_params
                     (sample_st (sample_msg (Some bob) 100000 1 10 7 None) Binary)) of
            Inl err \<Rightarrow> True
          | Inr (ret, requiredGas, usedGas, failed) \<Rightarrow>
              intrinsic_of sample_params (sample_st (sample_msg (Some bob) 100000 1 10 7 None) Binary)
                \<le> usedGas)"
proof -
  note s = sample_transfer
  from settled_result [OF s(1) s(2) _ _ _ s(3)] s(6) show ?thesis
    by (simp add: s(4,5))
qed

subsection \<open>Governance kinds\<close>

lemma governance_kind_dispatch:
  assumes "fst (prepare P st) = Inr (sender, ''normal'')"
    and "To (msg st) = Some to"
    and "txType st \<in> {LoginCandidate, LogoutCandidate, Delegate, UnDelegate}"
  shows "data st \<noteq> None \<Longrightarrow> TransitionDb P st = (Inl ErrInvalidInput, snd (prepare P st))"
    and "data st = None \<Longrightarrow>
           (case Call (evm st)
                   (SetNonce (state (snd (prepare P st))) (From (msg st))
                      (GetNonce (state st) (From (msg st)) + 1))
                   (From (msg st)) to None (gas (snd (prepare P st))) (value' st) (ValidatorS st) of
              (ret, g, vmerr, s) \<Rightarrow>
                TransitionDb P st =
                  finish ''normal'' ret vmerr ((snd (prepare P st))\<lparr>gas := g, state := s\<rparr>))"
proof -
  have s: "sender = From (msg st)" by (rule prepare_ok(1) [OF assms(1)])
  show "data st \<noteq> None \<Longrightarrow> TransitionDb P st = (Inl ErrInvalidInput, snd (prepare P st))"
    using assms(2,3) by (auto simp: TransitionDb_unfold [OF assms(1)] dispatch_def)
  show "data st = None \<Longrightarrow>
           (case Call (evm st)
                   (SetNonce (state (snd (prepare P st))) (From (msg st))
                      (GetNonce (state st) (From (msg st)) + 1))
                   (From (msg st)) to None (gas (snd (prepare P st))) (value' st) (ValidatorS st) of
              (ret, g, vmerr, s) \<Rightarrow>
                TransitionDb P st =
                  finish ''normal'' ret vmerr ((snd (prepare P st))\<lparr>gas := g, state := s\<rparr>))"
    using assms(2,3)
    by (auto simp: TransitionDb_unfold [OF assms(1)] dispatch_def s incrementNonce_def
          assignResult_def split_beta)
qed

text \<open>Claim C7. For role normal and a governance kind the dispatch tests \<open>st.data != nil\<close>,
  not the length of the payload. A payload that is empty but not nil, \<open>[]byte{}\<close>, has
  length 0 and still fails with \<open>ErrInvalidInput\<close>, where the claim has an empty payload go
  on to the nonce increment and the call: here on a LoginCandidate transaction that
  reaches the dispatch.\<close>

theorem governance_empty_slice_is_invalid_input:
  "len (Data (sample_msg (Some bob) 100000 1 0 7 (Some []))) = 0
   \<and> fst (prepare sample_params (sample_st (sample_msg (Some bob) 100000 1 0 7 (Some [])) LoginCandidate))
       = Inr (alice, ''normal'')
   \<and> fst (TransitionDb sample_params (sample_st (sample_msg (Some bob) 100000 1 0 7 (Some [])) LoginCandidate))
       = Inl ErrInvalidInput"
proof -
  let ?st = "sample_st (sample_msg (Some bob) 100000 1 0 7 (Some [])) LoginCandidate"
  have i: "intrinsic_of sample_params ?st = 21000"
    by (simp add: intrinsic_of_def sample_roles IntrinsicGas_def len_def sample_params_def)
  have p: "fst (prepare sample_params ?st) = Inr (alice, ''normal'')"
    using prepare_passes [OF sample_preCheck, of sample_params "Some bob" 0 "Some []" LoginCandidate]
    by (simp add: i sample_roles Uint64_def)
  from governance_kind_dispatch(1) [OF p, of bob] p show ?thesis
    by (simp add: len_def)
qed

subsection \<open>The coinbase slot\<close>

text \<open>Claim C8, as amended. The delegated coinbase address is the first 20 bytes of its
  32-byte storage slot, left-aligned: a slot that holds the address followed by 12 more
  bytes gives the address back. The engine reads it that way in both places: the reward of
  a contract recipient credits that address with the tenth of the fee, and the init code
  of a template recipient gets that address appended, before the recipient's own.\<close>

theorem coinbase_slot_is_left_aligned:
  assumes "length a = 20" and "length pad = 12"
    and "To (msg st) = Some to"
    and "GetState (state st) to (go_bytes ''coinbase'' @ replicate 24 0) = a @ pad"
  shows "CommonHash2Address (a @ pad) = a
         \<and> byteAppend t (a @ pad) = t @ a
         \<and> (0 \<le> gasUsed st \<and> gasUsed st < 2 ^ 64 \<longrightarrow>
              reward ''contract'' st =
                (None, st\<lparr>state :=
                   AddBalance
                     (AddBalance (state st) (Coinbase (evm st))
                        ((gasUsed st - gasUsed st div 10) * gasPrice st))
                     a (gasUsed st div 10 * gasPrice st)\<rparr>))
         \<and> (txType st = Binary \<and> length to = 20 \<longrightarrow>
              dispatch sender ''template'' st =
                assignResult
                  (Create (evm st) (state st) sender
                     (GetCode (state st) to @ elems (data st) @ a @ to) (gas st) (value' st))
                  st)"
proof -
  have c: "CommonHash2Address (a @ pad) = a"
    using assms(1) by (simp add: CommonHash2Address_take)
  have b: "byteAppend t (a @ pad) = t @ a" for t
    using assms(1) by (simp add: byteAppend_take)
  have r: "reward ''contract'' st =
                (None, st\<lparr>state :=
                   AddBalance
                     (AddBalance (state st) (Coinbase (evm st))
                        ((gasUsed st - gasUsed st div 10) * gasPrice st))
                     a (gasUsed st div 10 * gasPrice st)\<rparr>)"
    if "0 \<le> gasUsed st" "gasUsed st < 2 ^ 64"
    using reward_split(1) [OF that assms(3)] by (simp add: assms(4) c)
  have d: "dispatch sender ''template'' st =
                assignResult
                  (Create (evm st) (state st) sender
                     (GetCode (state st) to @ elems (data st) @ a @ to) (gas st) (value' st))
                  st"
    if "txType st = Binary" "length to = 20"
    using that assms(3)
    by (simp add: dispatch_def HashTypeString_coinbase Let_def ByteAndByte_append assms(4) b
          byteAppendAddress_take)
       (simp add: len_def elems_def split: option.splits)
  from c b r d show ?thesis by blast
qed

theorem coinbase_slot_is_left_aligned_witness:
  "length carol = 20
   \<and> CommonHash2Address (carol @ replicate 12 0) = carol
   \<and> byteAppend [0x60, 0x02] (carol @ replicate 12 0) = [0x60, 0x02] @ carol
   \<and> fst (reward ''contract''
            ((sample_st (sample_msg (Some ctr) 1000 5 0 7 None) Endorse)\<lparr>initialGas := 100\<rparr>)) = None
   \<and> GetBalance (state (snd (reward ''contract''
            ((sample_st (sample_msg (Some ctr) 1000 5 0 7 None) Endorse)\<lparr>initialGas := 100\<rparr>)))) carol
       = 500 + 50"
proof -
  let ?st = "(sample_st (sample_msg (Some ctr) 1000 5 0 7 None) Endorse)\<lparr>initialGas := 100\<rparr>"
  have l: "length carol = 20" "length (replicate 12 (0 :: byte)) = 12"
    by (simp_all add: carol_def)
  have t: "To (msg ?st) = Some ctr" by simp
  have g: "GetState (state ?st) ctr (go_bytes ''coinbase'' @ replicate 24 0) = carol @ replicate 12 0"
    by (simp add: sample_coinbase_slots)
  have u: "gasUsed ?st = 100" by (simp add: gasUsed_def)
  have b: "GetBalance sample_state carol = 500"
    by (simp add: GetBalance_def getAccount_def sample_state_def alice_def carol_def tmpl_def ctr_def)
  have ne: "carol \<noteq> miner" by (simp add: carol_def miner_def)
  from coinbase_slot_is_left_aligned [OF l t g, of "[0x60, 0x02]"] l show ?thesis
    by (simp add: u sample_evm_def b ne)
qed

text \<open>Claim C8 as it stands fails: from a slot that holds the address right-aligned, after
  12 zero bytes, the engine reads 12 zero bytes and the first 8 bytes of the address.\<close>

theorem coinbase_slot_right_aligned_counterexample:
  "CommonHash2Address (replicate 12 0 @ carol) = replicate 12 0 @ replicate 8 0xC0
   \<and> CommonHash2Address (replicate 12 0 @ carol) \<noteq> carol
   \<and> byteAppend [] (replicate 12 0 @ carol) \<noteq> carol"
proof -
  have r: "CommonHash2Address (replicate 12 0 @ carol) = replicate 12 0 @ replicate 8 0xC0"
    by (simp add: CommonHash2Address_take carol_def)
  have b: "byteAppend [] (replicate 12 0 @ carol) = replicate 12 0 @ replicate 8 0xC0"
    by (simp add: byteAppend_take carol_def)
  have n: "replicate 12 (0 :: byte) @ replicate 8 0xC0 \<noteq> carol"
  proof
    assume "replicate 12 (0 :: byte) @ replicate 8 0xC0 = carol"
    then have "hd (replicate 12 (0 :: byte) @ replicate 8 0xC0) = hd carol" by simp
    then show False by (simp add: carol_def)
  qed
  from r b n show ?thesis by simp
qed

end
